theory Spec2Isabelle
  imports Main "HOL-Library.Word" "HOL-Library.Sublist"
begin

unbundle bit_operations_syntax

section \<open>Common JavaScript notions\<close>

text \<open>
  A \<^verbatim>\<open>Buffer\<close> is a list of bytes. A JavaScript string is a sequence of UTF-16 code
  units. Exceptions are values of \<open>js_error\<close>; a function that may throw returns
  \<open>js_error + 'a\<close>, with \<open>Inl\<close> for the exception.
\<close>

type_synonym byte = "8 word"
type_synonym js_string = "16 word list"

text \<open>
  The JavaScript values met in decoded messages: \<open>JObj\<close> is an object, array or buffer,
  known by its identity only.
\<close>

datatype jsval =
    Undefined
  | JNull
  | JBool bool
  | JNum int
  | JStr string
  | JObj nat

fun truthy :: "jsval \<Rightarrow> bool" where
  "truthy Undefined = False"
| "truthy JNull = False"
| "truthy (JBool b) = b"
| "truthy (JNum n) = (n \<noteq> 0)"
| "truthy (JStr s) = (s \<noteq> [])"
| "truthy (JObj i) = True"

text \<open>
  The exceptions of the code. An \<^verbatim>\<open>Error\<close> built from a template string is a constructor
  carrying the interpolated values:
  \<^item> \<open>UnexpectedData\<close>: \<^verbatim>\<open>Unexpected data: ...\<close>
  \<^item> \<open>ConnectionRefused port\<close>: \<^verbatim>\<open>Connection was refused to port ${port}\<close>
  \<^item> \<open>ConnectionFailed n\<close>: \<^verbatim>\<open>Connection failed with code ${data.payload.Number}\<close>
  \<^item> \<open>ParseFailed\<close>: \<^verbatim>\<open>Failed to parse pair record data: ${e}\<close>
  \<^item> \<open>ReceiveTimeout ms\<close>: \<^verbatim>\<open>Failed to receive any data within the timeout: ${timeout}ms ...\<close>
  \<^item> \<open>SocketUnavailable path\<close>: \<^verbatim>\<open>The usbmuxd socket at '${socketPath}' does not exist or is not accessible\<close>
  \<^item> \<open>ConnectionTimedOut ms\<close>: \<^verbatim>\<open>Connection timed out after ${timeout}ms\<close>
  \<^item> \<open>MissingCertOrKey\<close>: \<^verbatim>\<open>Pair record missing certificate or key\<close>
  \<^item> \<open>UnexpectedSessionData\<close>: \<^verbatim>\<open>Unexpected session data: ...\<close>
  \<^item> \<open>IOError n\<close>: an error raised by a socket, a timer or a collaborator outside the code
  \<^item> \<open>WriteRejected n\<close>: the rejection \<^verbatim>\<open>'error: ' + error\<close> of \<^verbatim>\<open>sendFrame\<close>
\<close>

datatype js_error =
    RangeError
  | TypeError
  | UnexpectedData
  | ConnectionRefused int
  | ConnectionFailed jsval
  | ParseFailed
  | ReceiveTimeout nat
  | SocketUnavailable "string option"
  | ConnectionTimedOut nat
  | MissingCertOrKey
  | UnexpectedSessionData
  | IOError nat
  | WriteRejected nat

definition bindE :: "js_error + 'a \<Rightarrow> ('a \<Rightarrow> js_error + 'b) \<Rightarrow> js_error + 'b" where
  "bindE r f = (case r of Inl e \<Rightarrow> Inl e | Inr x \<Rightarrow> f x)"

text \<open>Evaluates a list of fallible computations in order, stopping at the first exception.\<close>

fun mapE :: "('a \<Rightarrow> js_error + 'b) \<Rightarrow> 'a list \<Rightarrow> js_error + 'b list" where
  "mapE f [] = Inr []"
| "mapE f (x # xs) =
     (case f x of
        Inl e \<Rightarrow> Inl e
      | Inr y \<Rightarrow> (case mapE f xs of Inl e \<Rightarrow> Inl e | Inr ys \<Rightarrow> Inr (y # ys)))"

text \<open>
  \<open>be_bytes k v\<close> is what the \<^verbatim>\<open>write(U)Int..BE\<close> family stores for an in-range value:
  the \<open>k\<close> low-order bytes of \<open>v\<close> in two's complement, most significant byte first.
\<close>

fun be_bytes :: "nat \<Rightarrow> int \<Rightarrow> byte list" where
  "be_bytes 0 v = []"
| "be_bytes (Suc k) v = word_of_int (v div 256 ^ k) # be_bytes k v"

definition writeUInt :: "nat \<Rightarrow> int \<Rightarrow> js_error + byte list" where
  "writeUInt k v = (if 0 \<le> v \<and> v < 256 ^ k then Inr (be_bytes k v) else Inl RangeError)"

definition writeInt :: "nat \<Rightarrow> int \<Rightarrow> js_error + byte list" where
  "writeInt k v =
     (if - (256 ^ k div 2) \<le> v \<and> v < 256 ^ k div 2 then Inr (be_bytes k v) else Inl RangeError)"

section \<open>Binary property list creator (binary-plist-creator.ts)\<close>

subsection \<open>Values\<close>

text \<open>
  \<^verbatim>\<open>PlistValue\<close>. A JavaScript \<^verbatim>\<open>number\<close> is \<open>PNumInt\<close> when
  \<^verbatim>\<open>Number.isInteger\<close> holds of it and \<open>PNumReal\<close> (carrying its IEEE-754 bits)
  otherwise. Dates, buffers, arrays and dictionaries are objects: they carry the identity
  under which the \<^verbatim>\<open>Map\<close> of the creator compares them. A date carries the bits of the
  double \<^verbatim>\<open>getTime() / 1000 - APPLE_EPOCH_OFFSET\<close>. A dictionary lists its entries in
  the order of \<^verbatim>\<open>Object.keys\<close>; its keys are pairwise distinct, so that \<^verbatim>\<open>dict[key]\<close> is
  the value listed with the key.
\<close>

datatype PlistValue =
    PNull
  | PBool bool
  | PNumInt int
  | PNumReal "64 word"
  | PBigInt int
  | PDate nat "64 word"
  | PData nat "byte list"
  | PString js_string
  | PArray nat "PlistValue list"
  | PDict nat "(js_string \<times> PlistValue) list"

text \<open>The key under which a \<^verbatim>\<open>Map\<close> files a value: primitives by value, objects by identity.\<close>

datatype map_key =
    KNull
  | KBool bool
  | KNum int
  | KReal "64 word"
  | KBig int
  | KStr js_string
  | KObj nat

fun key_of :: "PlistValue \<Rightarrow> map_key" where
  "key_of PNull = KNull"
| "key_of (PBool b) = KBool b"
| "key_of (PNumInt n) = KNum n"
| "key_of (PNumReal r) = KReal r"
| "key_of (PBigInt n) = KBig n"
| "key_of (PDate i d) = KObj i"
| "key_of (PData i bs) = KObj i"
| "key_of (PString s) = KStr s"
| "key_of (PArray i xs) = KObj i"
| "key_of (PDict i kvs) = KObj i"

subsection \<open>Constants (constants.ts)\<close>

text \<open>
  Modelled from the spec: the module \<^verbatim>\<open>constants.ts\<close> is missing; the type tags, the magic
  and the trailer size are those of sections 3 and 4.1 of the specification.
\<close>

definition BPLIST_TYPE_NULL :: byte where "BPLIST_TYPE_NULL = 0x00"
definition BPLIST_TYPE_FALSE :: byte where "BPLIST_TYPE_FALSE = 0x08"
definition BPLIST_TYPE_TRUE :: byte where "BPLIST_TYPE_TRUE = 0x09"
definition BPLIST_TYPE_INT :: byte where "BPLIST_TYPE_INT = 0x10"
definition BPLIST_TYPE_REAL :: byte where "BPLIST_TYPE_REAL = 0x20"
definition BPLIST_TYPE_DATE :: byte where "BPLIST_TYPE_DATE = 0x33"
definition BPLIST_TYPE_DATA :: byte where "BPLIST_TYPE_DATA = 0x40"
definition BPLIST_TYPE_STRING_ASCII :: byte where "BPLIST_TYPE_STRING_ASCII = 0x50"
definition BPLIST_TYPE_STRING_UNICODE :: byte where "BPLIST_TYPE_STRING_UNICODE = 0x60"
definition BPLIST_TYPE_ARRAY :: byte where "BPLIST_TYPE_ARRAY = 0xA0"
definition BPLIST_TYPE_DICT :: byte where "BPLIST_TYPE_DICT = 0xD0"

definition BPLIST_MAGIC_AND_VERSION :: "byte list" where
  "BPLIST_MAGIC_AND_VERSION = [0x62, 0x70, 0x6C, 0x69, 0x73, 0x74, 0x30, 0x30]"

definition BPLIST_TRAILER_SIZE :: nat where
  "BPLIST_TRAILER_SIZE = 32"

subsection \<open>Collecting the object table\<close>

record creator =
  objectTable :: "PlistValue list"
  objectRefMap :: "map_key \<rightharpoonup> nat"
  objectRefSize :: nat
  offsetSize :: nat

definition new_creator :: creator where
  "new_creator = \<lparr>objectTable = [], objectRefMap = Map.empty, objectRefSize = 0, offsetSize = 0\<rparr>"

definition register :: "PlistValue \<Rightarrow> creator \<Rightarrow> creator" where
  "register v c =
     c\<lparr>objectTable := objectTable c @ [v],
       objectRefMap := (objectRefMap c)(key_of v \<mapsto> length (objectTable c))\<rparr>"

fun collectObjectsRecursive :: "PlistValue \<Rightarrow> creator \<Rightarrow> creator"
and collectItems :: "PlistValue list \<Rightarrow> creator \<Rightarrow> creator"
and collectEntries :: "(js_string \<times> PlistValue) list \<Rightarrow> creator \<Rightarrow> creator" where
  "collectObjectsRecursive v c =
     (if objectRefMap c (key_of v) \<noteq> None then c
      else (case v of
              PArray i xs \<Rightarrow> collectItems xs (register v c)
            | PDict i kvs \<Rightarrow> collectEntries kvs (register v c)
            | _ \<Rightarrow> register v c))"
| "collectItems [] c = c"
| "collectItems (x # xs) c = collectItems xs (collectObjectsRecursive x c)"
| "collectEntries [] c = c"
| "collectEntries ((k, x) # kvs) c =
     collectEntries kvs (collectObjectsRecursive x (collectObjectsRecursive (PString k) c))"

definition calculateMinByteSize :: "int \<Rightarrow> nat" where
  "calculateMinByteSize v =
     (if v < 256 then 1 else if v < 65536 then 2 else if v < 4294967296 then 4 else 8)"

definition collectObjects :: "PlistValue \<Rightarrow> creator \<Rightarrow> creator" where
  "collectObjects root c =
     (let c' = collectObjectsRecursive root c;
          numObjects = int (length (objectTable c'))
      in c'\<lparr>objectRefSize := calculateMinByteSize (numObjects - 1)\<rparr>)"

subsection \<open>Object records\<close>

definition calculateObjectDataLength :: "byte list list \<Rightarrow> nat" where
  "calculateObjectDataLength buffers = foldl (\<lambda>total buffer. total + length buffer) 0 buffers"

text \<open>
  \<^verbatim>\<open>_writeOffsetToBuffer\<close>: the bytes stored in the \<open>size\<close>-byte slot at \<open>position\<close>.
  For a size other than 1, 2, 4 or 8 nothing is written and the slot keeps the zeros of
  \<^verbatim>\<open>Buffer.alloc\<close>.
\<close>

definition writeOffsetToBuffer :: "int \<Rightarrow> nat \<Rightarrow> js_error + byte list" where
  "writeOffsetToBuffer v sz =
     (if sz = 1 then writeUInt 1 v
      else if sz = 2 then writeUInt 2 v
      else if sz = 4 then writeUInt 4 v
      else if sz = 8 then writeUInt 8 v
      else Inr (replicate sz 0))"

definition writeBigIntToBuffer :: "int \<Rightarrow> js_error + byte list" where
  "writeBigIntToBuffer v = writeUInt 8 v"

definition createNullData :: "byte list" where
  "createNullData = [BPLIST_TYPE_NULL]"

definition createBooleanData :: "bool \<Rightarrow> byte list" where
  "createBooleanData v = [if v then BPLIST_TYPE_TRUE else BPLIST_TYPE_FALSE]"

text \<open>The argument of \<^verbatim>\<open>_createIntegerData\<close> is a \<^verbatim>\<open>number\<close> or a \<^verbatim>\<open>bigint\<close>.\<close>

datatype int_arg = Num int | Big int

fun createIntegerData :: "int_arg \<Rightarrow> js_error + byte list" where
  "createIntegerData (Big v) =
     bindE (writeInt 8 v) (\<lambda>body. Inr ((BPLIST_TYPE_INT OR 3) # body))"
| "createIntegerData (Num v) =
     (if v \<ge> 0 \<and> v \<le> 255 then
        bindE (writeUInt 1 v) (\<lambda>body. Inr ((BPLIST_TYPE_INT OR 0) # body))
      else if v \<ge> -128 \<and> v \<le> 127 then
        bindE (writeInt 1 v) (\<lambda>body. Inr ((BPLIST_TYPE_INT OR 0) # body))
      else if v \<ge> -32768 \<and> v \<le> 32767 then
        bindE (writeInt 2 v) (\<lambda>body. Inr ((BPLIST_TYPE_INT OR 1) # body))
      else if v \<ge> -2147483648 \<and> v \<le> 2147483647 then
        bindE (writeInt 4 v) (\<lambda>body. Inr ((BPLIST_TYPE_INT OR 2) # body))
      else
        bindE (writeInt 8 v) (\<lambda>body. Inr ((BPLIST_TYPE_INT OR 3) # body)))"

definition createFloatData :: "64 word \<Rightarrow> byte list" where
  "createFloatData bits = (BPLIST_TYPE_REAL OR 3) # be_bytes 8 (uint bits)"

definition createDateData :: "64 word \<Rightarrow> byte list" where
  "createDateData bits = BPLIST_TYPE_DATE # be_bytes 8 (uint bits)"

definition createIntHeader :: "nat \<Rightarrow> js_error + byte list" where
  "createIntHeader v =
     (if v < 256 then
        bindE (writeUInt 1 (int v)) (\<lambda>body. Inr ((BPLIST_TYPE_INT OR 0) # body))
      else if v < 65536 then
        bindE (writeUInt 2 (int v)) (\<lambda>body. Inr ((BPLIST_TYPE_INT OR 1) # body))
      else
        bindE (writeUInt 4 (int v)) (\<lambda>body. Inr ((BPLIST_TYPE_INT OR 2) # body)))"

text \<open>The header shared by data, strings, arrays and dictionaries: tag and length.\<close>

definition lengthHeader :: "byte \<Rightarrow> nat \<Rightarrow> js_error + byte list" where
  "lengthHeader tag len =
     (if len < 15 then Inr [tag OR of_nat len]
      else bindE (createIntHeader len) (\<lambda>lengthBuffer. Inr ((tag OR 0x0F) # lengthBuffer)))"

definition createBufferData :: "byte list \<Rightarrow> js_error + byte list" where
  "createBufferData v = bindE (lengthHeader BPLIST_TYPE_DATA (length v)) (\<lambda>header. Inr (header @ v))"

definition isAscii :: "js_string \<Rightarrow> bool" where
  "isAscii v = list_all (\<lambda>u. u \<le> 0x7F) v"

text \<open>\<^verbatim>\<open>Buffer.from(value, 'ascii')\<close> and \<^verbatim>\<open>Buffer.from(value, 'utf16le')\<close>.\<close>

definition buffer_from_ascii :: "js_string \<Rightarrow> byte list" where
  "buffer_from_ascii v = map (\<lambda>u. ucast u) v"

definition buffer_from_utf16le :: "js_string \<Rightarrow> byte list" where
  "buffer_from_utf16le v = concat (map (\<lambda>u. [ucast u, ucast (drop_bit 8 u)]) v)"

definition createStringData :: "js_string \<Rightarrow> js_error + byte list" where
  "createStringData v =
     (let stringBuffer = (if isAscii v then buffer_from_ascii v else buffer_from_utf16le v);
          len = (if isAscii v then length v else length stringBuffer div 2)
      in bindE (lengthHeader (if isAscii v then BPLIST_TYPE_STRING_ASCII
                              else BPLIST_TYPE_STRING_UNICODE) len)
           (\<lambda>header. Inr (header @ stringBuffer)))"

text \<open>\<^verbatim>\<open>this._objectRefMap.get(x) ?? 0\<close>\<close>

definition refOf :: "creator \<Rightarrow> PlistValue \<Rightarrow> int" where
  "refOf c x = (case objectRefMap c (key_of x) of None \<Rightarrow> 0 | Some r \<Rightarrow> int r)"

definition refBuffer :: "creator \<Rightarrow> PlistValue list \<Rightarrow> js_error + byte list" where
  "refBuffer c xs =
     bindE (mapE (\<lambda>x. writeOffsetToBuffer (refOf c x) (objectRefSize c)) xs)
       (\<lambda>slots. Inr (concat slots))"

definition createArrayData :: "creator \<Rightarrow> PlistValue list \<Rightarrow> js_error + byte list" where
  "createArrayData c v =
     bindE (lengthHeader BPLIST_TYPE_ARRAY (length v)) (\<lambda>header.
     bindE (refBuffer c v) (\<lambda>refs. Inr (header @ refs)))"

definition createDictionaryData :: "creator \<Rightarrow> (js_string \<times> PlistValue) list \<Rightarrow> js_error + byte list" where
  "createDictionaryData c v =
     bindE (lengthHeader BPLIST_TYPE_DICT (length v)) (\<lambda>header.
     bindE (refBuffer c (map (\<lambda>kv. PString (fst kv)) v)) (\<lambda>keyRefBuffer.
     bindE (refBuffer c (map snd v)) (\<lambda>valueRefBuffer.
       Inr (header @ keyRefBuffer @ valueRefBuffer))))"

fun createObjectData :: "creator \<Rightarrow> PlistValue \<Rightarrow> js_error + byte list" where
  "createObjectData c PNull = Inr createNullData"
| "createObjectData c (PBool b) = Inr (createBooleanData b)"
| "createObjectData c (PBigInt n) = createIntegerData (Big n)"
| "createObjectData c (PNumInt n) = createIntegerData (Num n)"
| "createObjectData c (PNumReal r) = Inr (createFloatData r)"
| "createObjectData c (PDate i d) = Inr (createDateData d)"
| "createObjectData c (PData i bs) = createBufferData bs"
| "createObjectData c (PString s) = createStringData s"
| "createObjectData c (PArray i xs) = createArrayData c xs"
| "createObjectData c (PDict i kvs) = createDictionaryData c kvs"

subsection \<open>Offset table, trailer and the whole image\<close>

text \<open>The loop of \<^verbatim>\<open>create\<close> over the object table, with its two accumulators.\<close>

fun emitObjects ::
  "creator \<Rightarrow> PlistValue list \<Rightarrow> nat list \<times> byte list list \<Rightarrow> js_error + (nat list \<times> byte list list)" where
  "emitObjects c [] acc = Inr acc"
| "emitObjects c (v # vs) (objectOffsets, objectData) =
     (case createObjectData c v of
        Inl e \<Rightarrow> Inl e
      | Inr d \<Rightarrow>
          emitObjects c vs
            (objectOffsets @ [calculateObjectDataLength objectData], objectData @ [d]))"

definition createOffsetTable :: "creator \<Rightarrow> nat list \<Rightarrow> js_error + byte list" where
  "createOffsetTable c objectOffsets =
     bindE (mapE (\<lambda>i. if i < length objectOffsets
                       then writeOffsetToBuffer (int (objectOffsets ! i)) (offsetSize c)
                       else Inl TypeError)
              [0 ..< length (objectTable c)])
       (\<lambda>slots. Inr (concat slots))"

definition createTrailer :: "creator \<Rightarrow> nat \<Rightarrow> nat \<Rightarrow> js_error + byte list" where
  "createTrailer c numObjects offsetTableOffset =
     bindE (writeUInt 1 (int (offsetSize c))) (\<lambda>b6.
     bindE (writeUInt 1 (int (objectRefSize c))) (\<lambda>b7.
     bindE (writeBigIntToBuffer (int numObjects)) (\<lambda>b8.
     bindE (writeBigIntToBuffer 0) (\<lambda>b16.
     bindE (writeBigIntToBuffer (int offsetTableOffset)) (\<lambda>b24.
       Inr (replicate 6 0 @ b6 @ b7 @ b8 @ b16 @ b24 @
            replicate (BPLIST_TRAILER_SIZE - 32) 0))))))"

definition create :: "PlistValue \<Rightarrow> js_error + byte list" where
  "create rootObject =
     (let c = collectObjects rootObject new_creator in
      bindE (emitObjects c (objectTable c) ([], [])) (\<lambda>(objectOffsets, objectData).
        let maxOffset = calculateObjectDataLength objectData;
            c' = c\<lparr>offsetSize := calculateMinByteSize (int maxOffset)\<rparr>
        in bindE (createOffsetTable c' objectOffsets) (\<lambda>offsetTable.
             let offsetTableOffset =
                   length BPLIST_MAGIC_AND_VERSION + calculateObjectDataLength objectData
             in bindE (createTrailer c' (length (objectTable c')) offsetTableOffset) (\<lambda>trailer.
                  Inr (BPLIST_MAGIC_AND_VERSION @ concat objectData @ offsetTable @ trailer)))))"

definition createBinaryPlist :: "PlistValue \<Rightarrow> js_error + byte list" where
  "createBinaryPlist obj = create obj"

section \<open>usbmux client\<close>

definition LOCKDOWN_PORT :: int where "LOCKDOWN_PORT = 62078"

definition USBMUX_RESULT_OK :: int where "USBMUX_RESULT_OK = 0"
definition USBMUX_RESULT_BADCOMMAND :: int where "USBMUX_RESULT_BADCOMMAND = 1"
definition USBMUX_RESULT_BADDEV :: int where "USBMUX_RESULT_BADDEV = 2"
definition USBMUX_RESULT_CONNREFUSED :: int where "USBMUX_RESULT_CONNREFUSED = 3"

definition PROG_NAME :: string where "PROG_NAME = ''appium-internal''"
definition CLIENT_VERSION_STRING :: string where "CLIENT_VERSION_STRING = ''appium-internal-1.0.0''"

text \<open>
  \<^verbatim>\<open>((value & 0xff) << 8) | ((value >> 8) & 0xff)\<close> on an integer \<^verbatim>\<open>number\<close>. The bitwise
  operators of JavaScript work on the 32-bit two's complement of the value; only its 16
  low-order bits are read here, and they are those of the integer itself.
\<close>

definition byteSwap16 :: "int \<Rightarrow> int" where
  "byteSwap16 v = push_bit 8 (v AND 0xff) OR (drop_bit 8 v AND 0xff)"

subsection \<open>getDefaultSocket\<close>










definition ascii_lower :: "char \<Rightarrow> char" where
  "ascii_lower c =
     (if (65::nat) \<le> of_char c \<and> of_char c \<le> (90::nat) then char_of (of_char c + (32::nat)) else c)"










subsection \<open>Pair records\<close>

text \<open>
  Modelled from the spec: the module \<^verbatim>\<open>pair-record\<close> is missing; the fields of a pair record
  are those of section 3 of the specification. A field that is absent is \<open>None\<close>.
\<close>

record PairRecord =
  HostID :: "string option"
  SystemBUID :: "string option"
  HostCertificate :: "string option"
  HostPrivateKey :: "string option"

text \<open>The truthiness of an optional string field.\<close>

fun present :: "string option \<Rightarrow> bool" where
  "present None = False"
| "present (Some v) = (v \<noteq> [])"

subsection \<open>The Usbmux class\<close>

type_synonym plist_dict = "(string \<times> jsval) list"

definition field :: "plist_dict \<Rightarrow> string \<Rightarrow> jsval" where
  "field d k = (case map_of d k of None \<Rightarrow> Undefined | Some v \<Rightarrow> v)"

record mux_data =
  header_tag :: nat
  payload :: plist_dict

datatype request_kind =
    ReadBUID
  | ReadPairRecord string
  | ListDevices
  | Connect jsval int

datatype reply =
    RValue jsval
  | RPairRecord "PairRecord option"
  | RSocket

datatype timer_state = Armed | Cleared | Fired

datatype promise_state = Pending | Resolved reply | Rejected js_error

text \<open>
  One call of \<^verbatim>\<open>_receivePlistPromise\<close> creates a closure, a timer and a promise; a \<open>waiter\<close>
  holds the three, with the tag and the response callback the closure captured.
  \<open>w_settle_calls\<close> counts the calls of \<^verbatim>\<open>resolve\<close> and \<^verbatim>\<open>reject\<close>.
\<close>

record waiter =
  w_tag :: nat
  w_kind :: request_kind
  w_timeout :: nat
  w_timer :: timer_state
  w_promise :: promise_state
  w_settle_calls :: nat
  w_cleaned :: bool

text \<open>
  The state of a \<^verbatim>\<open>Usbmux\<close>. \<open>responseCallbacks\<close> maps a tag to the waiter registered under
  it. The counter \<open>tag\<close> is a \<^verbatim>\<open>number\<close>, exact up to \<open>2 ^ 53\<close>.
\<close>

record usbmux =
  tag :: nat
  responseCallbacks :: "nat \<rightharpoonup> nat"
  waiters :: "waiter list"
  sent :: "(nat \<times> plist_dict) list"
  splitter_detached :: bool

definition new_usbmux :: usbmux where
  "new_usbmux = \<lparr>tag = 0, responseCallbacks = Map.empty, waiters = [], sent = [],
                 splitter_detached = False\<rparr>"

definition request_payload :: "request_kind \<Rightarrow> plist_dict" where
  "request_payload k =
     (case k of
        ReadBUID \<Rightarrow>
          [(''MessageType'', JStr ''ReadBUID''), (''ProgName'', JStr PROG_NAME),
           (''ClientVersionString'', JStr CLIENT_VERSION_STRING)]
      | ReadPairRecord udid \<Rightarrow>
          [(''MessageType'', JStr ''ReadPairRecord''), (''PairRecordID'', JStr udid),
           (''ProgName'', JStr PROG_NAME), (''ClientVersionString'', JStr CLIENT_VERSION_STRING)]
      | ListDevices \<Rightarrow>
          [(''MessageType'', JStr ''ListDevices''), (''ProgName'', JStr PROG_NAME),
           (''ClientVersionString'', JStr CLIENT_VERSION_STRING)]
      | Connect deviceID port \<Rightarrow>
          [(''MessageType'', JStr ''Connect''), (''ProgName'', JStr PROG_NAME),
           (''ClientVersionString'', JStr CLIENT_VERSION_STRING), (''DeviceID'', deviceID),
           (''PortNumber'', JNum (byteSwap16 port))])"

text \<open>
  The response callback each operation passes to \<^verbatim>\<open>_receivePlistPromise\<close>. \<open>parse\<close> stands
  for \<^verbatim>\<open>processPlistResponse(plist.parsePlist(_))\<close>, which is outside the code.
\<close>

fun responseCallback ::
  "(jsval \<Rightarrow> js_error + PairRecord) \<Rightarrow> request_kind \<Rightarrow> mux_data \<Rightarrow> usbmux \<Rightarrow> (js_error + reply) \<times> usbmux" where
  "responseCallback parse ReadBUID d s =
     (if truthy (field (payload d) ''BUID'') then (Inr (RValue (field (payload d) ''BUID'')), s)
      else (Inl UnexpectedData, s))"
| "responseCallback parse (ReadPairRecord udid) d s =
     (if \<not> truthy (field (payload d) ''PairRecordData'') then (Inr (RPairRecord None), s)
      else (case parse (field (payload d) ''PairRecordData'') of
              Inl e \<Rightarrow> (Inl ParseFailed, s)
            | Inr r \<Rightarrow> (Inr (RPairRecord (Some r)), s)))"
| "responseCallback parse ListDevices d s =
     (if truthy (field (payload d) ''DeviceList'')
      then (Inr (RValue (field (payload d) ''DeviceList'')), s)
      else (Inl UnexpectedData, s))"
| "responseCallback parse (Connect deviceID port) d s =
     (if field (payload d) ''MessageType'' \<noteq> JStr ''Result'' then (Inl UnexpectedData, s)
      else if field (payload d) ''Number'' = JNum USBMUX_RESULT_OK
        then (Inr RSocket, s\<lparr>splitter_detached := True\<rparr>)
      else if field (payload d) ''Number'' = JNum USBMUX_RESULT_CONNREFUSED
        then (Inl (ConnectionRefused port), s)
      else (Inl (ConnectionFailed (field (payload d) ''Number'')), s))"

text \<open>A call of \<^verbatim>\<open>resolve\<close> or \<^verbatim>\<open>reject\<close> of waiter \<open>i\<close>: a settled promise keeps its state.\<close>

definition settle :: "nat \<Rightarrow> promise_state \<Rightarrow> usbmux \<Rightarrow> usbmux" where
  "settle i outcome s =
     (if i < length (waiters s) then
        (let w = waiters s ! i in
         s\<lparr>waiters := (waiters s)[i := w\<lparr>w_settle_calls := w_settle_calls w + 1,
                                         w_promise := (if w_promise w = Pending then outcome
                                                       else w_promise w)\<rparr>]\<rparr>)
      else s)"

definition set_timer :: "nat \<Rightarrow> timer_state \<Rightarrow> usbmux \<Rightarrow> usbmux" where
  "set_timer i t s =
     (if i < length (waiters s)
      then s\<lparr>waiters := (waiters s)[i := (waiters s ! i)\<lparr>w_timer := t\<rparr>]\<rparr>
      else s)"

definition delete_callback :: "nat \<Rightarrow> usbmux \<Rightarrow> usbmux" where
  "delete_callback t s = s\<lparr>responseCallbacks := (responseCallbacks s)(t := None)\<rparr>"

definition receivePlistPromise :: "nat \<Rightarrow> request_kind \<Rightarrow> usbmux \<Rightarrow> nat \<times> usbmux" where
  "receivePlistPromise ms k s =
     (let t = tag s;
          w = \<lparr>w_tag = t, w_kind = k, w_timeout = ms, w_timer = Armed, w_promise = Pending,
               w_settle_calls = 0, w_cleaned = False\<rparr>
      in (t, s\<lparr>tag := tag s + 1,
               responseCallbacks := (responseCallbacks s)(t \<mapsto> length (waiters s)),
               waiters := waiters s @ [w]\<rparr>))"

definition sendPlist :: "nat \<times> plist_dict \<Rightarrow> usbmux \<Rightarrow> usbmux" where
  "sendPlist json s = s\<lparr>sent := sent s @ [json]\<rparr>"

text \<open>\<^verbatim>\<open>readBUID\<close>, \<^verbatim>\<open>readPairRecord\<close>, \<^verbatim>\<open>listDevices\<close> and \<^verbatim>\<open>connect\<close>, up to the \<^verbatim>\<open>await\<close>.\<close>

definition request :: "request_kind \<Rightarrow> nat \<Rightarrow> usbmux \<Rightarrow> usbmux" where
  "request k ms s = (case receivePlistPromise ms k s of (t, s') \<Rightarrow> sendPlist (t, request_payload k) s')"

text \<open>The closure stored in \<^verbatim>\<open>_responseCallbacks[tag]\<close>, for waiter \<open>i\<close>.\<close>

definition runCallback :: "(jsval \<Rightarrow> js_error + PairRecord) \<Rightarrow> nat \<Rightarrow> mux_data \<Rightarrow> usbmux \<Rightarrow> usbmux" where
  "runCallback parse i d s =
     (if i < length (waiters s) then
        (let w = waiters s ! i;
             s1 = (if w_timer w = Armed then set_timer i Cleared s else s);
             (r, s2) = responseCallback parse (w_kind w) d s1;
             s3 = settle i (case r of Inr v \<Rightarrow> Resolved v | Inl e \<Rightarrow> Rejected e) s2
         in delete_callback (w_tag w) s3)
      else s)"

definition handleData :: "(jsval \<Rightarrow> js_error + PairRecord) \<Rightarrow> mux_data \<Rightarrow> usbmux \<Rightarrow> usbmux" where
  "handleData parse d s =
     (case responseCallbacks s (header_tag d) of
        None \<Rightarrow> s
      | Some cb \<Rightarrow> runCallback parse cb d s)"

text \<open>The handler of \<^verbatim>\<open>setTimeout\<close> of waiter \<open>i\<close>; a timer fires only while it is armed.\<close>

definition timerFires :: "nat \<Rightarrow> usbmux \<Rightarrow> usbmux" where
  "timerFires i s =
     (if i < length (waiters s) \<and> w_timer (waiters s ! i) = Armed then
        (let w = waiters s ! i;
             s1 = set_timer i Fired s
         in if responseCallbacks s1 (w_tag w) \<noteq> None
            then settle i (Rejected (ReceiveTimeout (w_timeout w))) (delete_callback (w_tag w) s1)
            else s1)
      else s)"

text \<open>
  The handler of \<^verbatim>\<open>receivePromise.catch(...).finally(...)\<close> of waiter \<open>i\<close>; it runs once,
  after the promise has settled.
\<close>

definition settledCleanup :: "nat \<Rightarrow> usbmux \<Rightarrow> usbmux" where
  "settledCleanup i s =
     (if i < length (waiters s) \<and> w_promise (waiters s ! i) \<noteq> Pending \<and> \<not> w_cleaned (waiters s ! i)
      then
        (let w = waiters s ! i;
             s1 = s\<lparr>waiters := (waiters s)[i := w\<lparr>w_cleaned := True\<rparr>]\<rparr>
         in if responseCallbacks s1 (w_tag w) \<noteq> None then delete_callback (w_tag w) s1 else s1)
      else s)"

text \<open>The event loop runs one handler at a time, to completion.\<close>

datatype event =
    Call request_kind nat
  | Data mux_data
  | TimerFires nat
  | SettledCleanup nat

fun step :: "(jsval \<Rightarrow> js_error + PairRecord) \<Rightarrow> usbmux \<Rightarrow> event \<Rightarrow> usbmux" where
  "step parse s (Call k ms) = request k ms s"
| "step parse s (Data d) = handleData parse d s"
| "step parse s (TimerFires i) = timerFires i s"
| "step parse s (SettledCleanup i) = settledCleanup i s"

definition run :: "(jsval \<Rightarrow> js_error + PairRecord) \<Rightarrow> event list \<Rightarrow> usbmux" where
  "run parse evs = foldl (step parse) new_usbmux evs"

section \<open>Lockdown service\<close>

record session_info =
  sessionID :: jsval
  enableSessionSSL :: bool

datatype plist_service = PlainService | TLSService nat

text \<open>
  The state of a \<^verbatim>\<open>LockdownService\<close>: \<open>plistAfterTLS\<close> is the plist service on the TLS
  socket, known by the socket; \<open>traffic\<close> lists the messages sent, each with the service
  that carried it.
\<close>

record LockdownService =
  udid :: string
  isTLS :: bool
  plistAfterTLS :: "nat option"
  traffic :: "(plist_service \<times> plist_dict) list"

definition new_LockdownService :: "string \<Rightarrow> LockdownService" where
  "new_LockdownService u = \<lparr>udid = u, isTLS = False, plistAfterTLS = None, traffic = []\<rparr>"

text \<open>
  What the collaborators answer during one call of \<^verbatim>\<open>tryUpgradeToTLS\<close>: whether
  \<^verbatim>\<open>createUsbmux\<close> fails, the outcome of \<^verbatim>\<open>usbmux.readPairRecord\<close>, the outcome of
  \<^verbatim>\<open>sendPlistAndReceive\<close> for the session request, and the outcome of
  \<^verbatim>\<open>upgradeSocketToTLS\<close>.
\<close>

record upgrade_env =
  usbmuxFailure :: "js_error option"
  pairRecordRead :: "js_error + PairRecord option"
  sessionReply :: "js_error + plist_dict"
  tlsOutcome :: "js_error + nat"

definition LABEL :: string where "LABEL = ''appium-internal''"

definition activeService :: "LockdownService \<Rightarrow> plist_service" where
  "activeService s =
     (case plistAfterTLS s of
        Some t \<Rightarrow> if isTLS s then TLSService t else PlainService
      | None \<Rightarrow> PlainService)"

definition sendAndReceive ::
  "plist_dict \<Rightarrow> js_error + plist_dict \<Rightarrow> LockdownService \<Rightarrow> (js_error + plist_dict) \<times> LockdownService" where
  "sendAndReceive msg answer s = (answer, s\<lparr>traffic := traffic s @ [(activeService s, msg)]\<rparr>)"

definition startSession ::
  "string \<Rightarrow> string \<Rightarrow> js_error + plist_dict \<Rightarrow> LockdownService \<Rightarrow> (js_error + session_info) \<times> LockdownService" where
  "startSession hostID systemBUID answer s =
     (case sendAndReceive [(''Label'', JStr LABEL), (''Request'', JStr ''StartSession''),
                           (''HostID'', JStr hostID), (''SystemBUID'', JStr systemBUID)] answer s of
        (Inl e, s') \<Rightarrow> (Inl e, s')
      | (Inr res, s') \<Rightarrow>
          if field res ''Request'' = JStr ''StartSession'' \<and> truthy (field res ''SessionID'')
          then (Inr \<lparr>sessionID = field res ''SessionID'',
                      enableSessionSSL = truthy (field res ''EnableSessionSSL'')\<rparr>, s')
          else (Inl UnexpectedSessionData, s'))"

definition getPairRecord :: "upgrade_env \<Rightarrow> js_error + PairRecord option" where
  "getPairRecord env =
     (case usbmuxFailure env of
        Some e \<Rightarrow> Inl e
      | None \<Rightarrow>
          (case pairRecordRead env of
             Inl err \<Rightarrow> Inl err
           | Inr None \<Rightarrow> Inl MissingCertOrKey
           | Inr (Some r) \<Rightarrow>
               if \<not> present (HostCertificate r) \<or> \<not> present (HostPrivateKey r)
               then Inl MissingCertOrKey
               else Inr (Some r)))"

definition tryUpgradeToTLS :: "upgrade_env \<Rightarrow> LockdownService \<Rightarrow> (js_error + unit) \<times> LockdownService" where
  "tryUpgradeToTLS env s =
     (case getPairRecord env of
        Inl e \<Rightarrow> (Inl e, s)
      | Inr None \<Rightarrow> (Inr (), s)
      | Inr (Some r) \<Rightarrow>
          if \<not> present (HostCertificate r) \<or> \<not> present (HostPrivateKey r)
             \<or> \<not> present (HostID r) \<or> \<not> present (SystemBUID r)
          then (Inr (), s)
          else
            (case (HostID r, SystemBUID r) of
               (Some hostID, Some systemBUID) \<Rightarrow>
                 (case startSession hostID systemBUID (sessionReply env) s of
                    (Inl e, s') \<Rightarrow> (Inl e, s')
                  | (Inr sess, s') \<Rightarrow>
                      if \<not> enableSessionSSL sess then (Inr (), s')
                      else (case tlsOutcome env of
                              Inl e \<Rightarrow> (Inl e, s')
                            | Inr tlsSocket \<Rightarrow>
                                (Inr (), s'\<lparr>plistAfterTLS := Some tlsSocket, isTLS := True\<rparr>)))
             | _ \<Rightarrow> (Inr (), s)))"

section \<open>RemoteXPC handshake\<close>

text \<open>
  Modelled from the spec: the modules \<^verbatim>\<open>Constants\<close>, \<^verbatim>\<open>HandshakeFrames\<close> and \<^verbatim>\<open>XPCProtocol\<close>
  are missing. The constants are those of sections 4.8 and 6 of the specification. A frame
  is known by the arguments of its constructor, and a DATA frame by the XPC message
  whose encoding it carries; \<open>Serialized f\<close> is the result of \<^verbatim>\<open>f.serialize()\<close>.
\<close>

definition ROOT_CHANNEL :: nat where "ROOT_CHANNEL = 1"
definition REPLY_CHANNEL :: nat where "REPLY_CHANNEL = 3"
definition XPC_FLAGS_ALWAYS_SET :: nat where "XPC_FLAGS_ALWAYS_SET = 0x00000001"
definition XPC_FLAGS_INIT_HANDSHAKE :: nat where "XPC_FLAGS_INIT_HANDSHAKE = 0x00400000"
definition MAX_CONCURRENT_STREAMS :: nat where "MAX_CONCURRENT_STREAMS = 3"
definition INITIAL_WINDOW_SIZE :: nat where "INITIAL_WINDOW_SIZE = 4"

datatype xpc_body = BodyNull | BodyDict plist_dict

record XPCMessage =
  xpc_flags :: nat
  xpc_id :: nat
  xpc_body :: xpc_body

datatype h2_frame =
    SettingsFrame nat "(nat \<times> nat) list option" "string list"
  | WindowUpdateFrame nat nat
  | HeadersFrame nat "byte list" "string list"
  | DataFrame nat XPCMessage "string list"

datatype wire = HTTP2_MAGIC | Serialized h2_frame

text \<open>
  The socket: what has been written to it, and for each write, by its rank, the error with
  which it ends, if any.
\<close>

record h2_socket =
  written :: "wire list"
  attempts :: nat
  write_error :: "nat \<Rightarrow> nat option"

record Handshake =
  socket :: h2_socket
  nextMessageId :: "nat \<rightharpoonup> nat"

definition new_Handshake :: "h2_socket \<Rightarrow> Handshake" where
  "new_Handshake s = \<lparr>socket = s, nextMessageId = [ROOT_CHANNEL \<mapsto> 0, REPLY_CHANNEL \<mapsto> 0]\<rparr>"

type_synonym action = "Handshake \<Rightarrow> js_error option \<times> Handshake"

definition socket_write :: "wire \<Rightarrow> h2_socket \<Rightarrow> nat option \<times> h2_socket" where
  "socket_write item k =
     (case write_error k (attempts k) of
        None \<Rightarrow> (None, k\<lparr>written := written k @ [item], attempts := attempts k + 1\<rparr>)
      | Some err \<Rightarrow> (Some err, k\<lparr>attempts := attempts k + 1\<rparr>))"

definition sendFrame :: "h2_frame \<Rightarrow> action" where
  "sendFrame frame h =
     (case socket_write (Serialized frame) (socket h) of
        (None, k) \<Rightarrow> (None, h\<lparr>socket := k\<rparr>)
      | (Some err, k) \<Rightarrow> (Some (WriteRejected err), h\<lparr>socket := k\<rparr>))"

definition sendMagic :: action where
  "sendMagic h =
     (case socket_write HTTP2_MAGIC (socket h) of
        (None, k) \<Rightarrow> (None, h\<lparr>socket := k\<rparr>)
      | (Some err, k) \<Rightarrow> (Some (IOError err), h\<lparr>socket := k\<rparr>))"

text \<open>\<^verbatim>\<open>BigInt(undefined)\<close> throws a \<^verbatim>\<open>TypeError\<close>.\<close>

definition sendRequest :: "xpc_body \<Rightarrow> action" where
  "sendRequest data h =
     (case nextMessageId h ROOT_CHANNEL of
        None \<Rightarrow> (Some TypeError, h)
      | Some i \<Rightarrow>
          sendFrame (DataFrame ROOT_CHANNEL
                       \<lparr>xpc_flags = XPC_FLAGS_ALWAYS_SET, xpc_id = i, xpc_body = data\<rparr> []) h)"

text \<open>\<^verbatim>\<open>this.nextMessageId[channel]++\<close>; a channel without an entry gains no number.\<close>

definition increment :: "nat \<Rightarrow> action" where
  "increment channel h =
     (None, h\<lparr>nextMessageId := (nextMessageId h)(channel := map_option Suc (nextMessageId h channel))\<rparr>)"

text \<open>Statements in sequence, each awaited; the first rejection ends the function.\<close>

fun in_sequence :: "action list \<Rightarrow> action" where
  "in_sequence [] h = (None, h)"
| "in_sequence (a # as) h =
     (case a h of
        (None, h') \<Rightarrow> in_sequence as h'
      | (Some e, h') \<Rightarrow> (Some e, h'))"

definition perform :: action where
  "perform =
     in_sequence
       [sendMagic,
        sendFrame (SettingsFrame 0 (Some [(MAX_CONCURRENT_STREAMS, 100),
                                          (INITIAL_WINDOW_SIZE, 1048576)]) []),
        sendFrame (WindowUpdateFrame 0 983041),
        sendFrame (HeadersFrame ROOT_CHANNEL [] [''END_HEADERS'']),
        sendRequest (BodyDict []),
        sendFrame (DataFrame ROOT_CHANNEL \<lparr>xpc_flags = 0x0201, xpc_id = 0, xpc_body = BodyNull\<rparr> []),
        increment ROOT_CHANNEL,
        sendFrame (HeadersFrame REPLY_CHANNEL [] [''END_HEADERS'']),
        sendFrame (DataFrame REPLY_CHANNEL
                     \<lparr>xpc_flags = XPC_FLAGS_ALWAYS_SET OR XPC_FLAGS_INIT_HANDSHAKE,
                      xpc_id = 0, xpc_body = BodyNull\<rparr> []),
        increment REPLY_CHANNEL,
        sendFrame (SettingsFrame 0 None [''ACK''])]"

section \<open>Notions of the specification\<close>

subsection \<open>Reading an image\<close>

text \<open>
  The layout of an image (section 3 of the specification): the trailer is its last 32
  bytes, with the offset size at byte 6, the reference size at byte 7, and three
  big-endian 8-byte fields; the offset table lies at the offset the trailer gives.
\<close>

definition be_nat :: "byte list \<Rightarrow> nat" where
  "be_nat bs = foldl (\<lambda>a b. a * 256 + unat b) 0 bs"

definition image_trailer :: "byte list \<Rightarrow> byte list" where
  "image_trailer buf = drop (length buf - 32) buf"

definition image_offset_size :: "byte list \<Rightarrow> nat" where
  "image_offset_size buf = be_nat (take 1 (drop 6 (image_trailer buf)))"

definition image_ref_size :: "byte list \<Rightarrow> nat" where
  "image_ref_size buf = be_nat (take 1 (drop 7 (image_trailer buf)))"

definition image_num_objects :: "byte list \<Rightarrow> nat" where
  "image_num_objects buf = be_nat (take 8 (drop 8 (image_trailer buf)))"

definition image_top_object :: "byte list \<Rightarrow> nat" where
  "image_top_object buf = be_nat (take 8 (drop 16 (image_trailer buf)))"

definition image_offset_table_offset :: "byte list \<Rightarrow> nat" where
  "image_offset_table_offset buf = be_nat (take 8 (drop 24 (image_trailer buf)))"

definition image_offset_table :: "byte list \<Rightarrow> nat list" where
  "image_offset_table buf =
     map (\<lambda>i. be_nat (take (image_offset_size buf)
                         (drop (image_offset_table_offset buf + i * image_offset_size buf) buf)))
       [0 ..< image_num_objects buf]"

text \<open>The code units of a string in UTF-16 big-endian order, high byte first.\<close>

definition utf16be :: "js_string \<Rightarrow> byte list" where
  "utf16be v = concat (map (\<lambda>u. [ucast (drop_bit 8 u), ucast u]) v)"

subsection \<open>Socket discovery as the specification words it\<close>




subsection \<open>Message ids on the wire\<close>

text \<open>The ids of the XPC messages carried by the DATA frames of a sequence of writes.\<close>

fun data_ids :: "wire list \<Rightarrow> nat list" where
  "data_ids [] = []"
| "data_ids (Serialized (DataFrame c m f) # ws) = xpc_id m # data_ids ws"
| "data_ids (w # ws) = data_ids ws"

subsection \<open>The invariant of the dispatch map\<close>

text \<open>
  The counter equals the number of waiters created; waiter \<open>i\<close> holds tag \<open>i\<close>; an entry of
  the map leads from a tag to the waiter holding it, whose promise is pending; a promise is
  pending exactly as long as neither \<^verbatim>\<open>resolve\<close> nor \<^verbatim>\<open>reject\<close> was called on it, and they
  are called at most once.
\<close>

definition mux_inv :: "usbmux \<Rightarrow> bool" where
  "mux_inv s \<longleftrightarrow>
     tag s = length (waiters s) \<and>
     (\<forall>i < length (waiters s). w_tag (waiters s ! i) = i) \<and>
     (\<forall>t i. responseCallbacks s t = Some i \<longrightarrow>
        i = t \<and> i < length (waiters s) \<and> w_promise (waiters s ! i) = Pending) \<and>
     (\<forall>i < length (waiters s).
        w_settle_calls (waiters s ! i) \<le> 1 \<and>
        (w_promise (waiters s ! i) = Pending \<longleftrightarrow> w_settle_calls (waiters s ! i) = 0))"

section \<open>Properties of the binary property list creator\<close>

lemma bindE_simps [simp]: "bindE (Inl e) f = Inl e" "bindE (Inr x) f = f x"
  by (simp_all add: bindE_def)

lemma be_bytes_1: "be_bytes 1 v = [word_of_int v]"
  by simp

lemma byte_of_int_shift: "(word_of_int (n - 256) :: byte) = word_of_int n"
  by (simp add: word_of_int_eq_iff take_bit_eq_mod)

text \<open>
  C1. For a string with a code point above 0x7F the creator is to emit a record with type
  nibble 0x6, a length counting UTF-16 code units, and the code units in big-endian order.
  The code fails this on the one-unit string U+00E9: the record has tag 0x61, hence the
  nibble and the count of one unit, but the body is E9 00, the little-endian order of
  \<^verbatim>\<open>Buffer.from(value, 'utf16le')\<close>, where big-endian order is 00 E9.
\<close>

theorem createStringData_body_little_endian:
  "createStringData [0x00E9] = Inr [0x61, 0xE9, 0x00] \<and> utf16be [0x00E9] = [0x00, 0xE9]"
  by code_simp

text \<open>
  C2. Each entry of the offset table is to be the offset of its record from byte 0 of the
  buffer. The code fails this on the array holding \<^verbatim>\<open>true\<close>: the records of the array
  (A1 01) and of \<^verbatim>\<open>true\<close> (09) lie at bytes 8 and 10 of the buffer, after the magic, and
  the offset table holds 0 and 2, the offsets from the first record.
\<close>

theorem create_offsets_from_first_record:
  "create (PArray 0 [PBool True]) =
     Inr [0x62, 0x70, 0x6C, 0x69, 0x73, 0x74, 0x30, 0x30, 0xA1, 0x01, 0x09, 0x00, 0x02,
          0, 0, 0, 0, 0, 0, 1, 1, 0, 0, 0, 0, 0, 0, 0, 2, 0, 0, 0, 0, 0, 0, 0, 0,
          0, 0, 0, 0, 0, 0, 0, 11] \<and>
   image_offset_table
     [0x62, 0x70, 0x6C, 0x69, 0x73, 0x74, 0x30, 0x30, 0xA1, 0x01, 0x09, 0x00, 0x02,
      0, 0, 0, 0, 0, 0, 1, 1, 0, 0, 0, 0, 0, 0, 0, 2, 0, 0, 0, 0, 0, 0, 0, 0,
      0, 0, 0, 0, 0, 0, 0, 11] = [0, 2]"
  by code_simp

text \<open>
  C3, as amended. The image of the dictionary \<^verbatim>\<open>{ "a": 1, "b": [true, null] }\<close> begins with
  the bytes 62 70 6c 69 73 74 30 30, and its trailer reports 7 objects (the dictionary, "a",
  1, "b", the array, \<^verbatim>\<open>true\<close> and \<^verbatim>\<open>null\<close>), top object 0, reference size 1 and offset size 1.
\<close>

theorem create_example_dictionary:
  "(case create (PDict 0 [([0x61], PNumInt 1), ([0x62], PArray 1 [PBool True, PNull])]) of
      Inl e \<Rightarrow> False
    | Inr buf \<Rightarrow>
        take 8 buf = [0x62, 0x70, 0x6C, 0x69, 0x73, 0x74, 0x30, 0x30] \<and>
        image_num_objects buf = 7 \<and> image_top_object buf = 0 \<and>
        image_ref_size buf = 1 \<and> image_offset_size buf = 1) \<and>
   objectTable (collectObjects (PDict 0 [([0x61], PNumInt 1), ([0x62], PArray 1 [PBool True, PNull])])
                  new_creator) =
     [PDict 0 [([0x61], PNumInt 1), ([0x62], PArray 1 [PBool True, PNull])],
      PString [0x61], PNumInt 1, PString [0x62], PArray 1 [PBool True, PNull], PBool True, PNull]"
  by code_simp

text \<open>C3 as the specification states it, with 6 objects, does not hold of this image.\<close>

theorem create_example_dictionary_not_six_objects:
  "\<not> (case create (PDict 0 [([0x61], PNumInt 1), ([0x62], PArray 1 [PBool True, PNull])]) of
        Inl e \<Rightarrow> False
      | Inr buf \<Rightarrow>
          take 8 buf = [0x62, 0x70, 0x6C, 0x69, 0x73, 0x74, 0x30, 0x30] \<and>
          image_num_objects buf = 6 \<and> image_top_object buf = 0 \<and>
          image_ref_size buf = 1 \<and> image_offset_size buf = 1)"
  by code_simp

text \<open>
  C9, as amended. For an integer from 0 to 255 and for one from -128 to -1, given as a
  \<^verbatim>\<open>number\<close>, the creator emits the tag 0x10 and one byte; hence the record of a value from
  128 to 255 is that of the value less 256, and the encoding is not injective on the
  integers from -128 to 255. An integer of the signed 64-bit range given as a \<^verbatim>\<open>bigint\<close> is
  emitted with the tag 0x13 and eight bytes, whatever its size.
\<close>

theorem createIntegerData_one_byte:
  "(0 \<le> n \<and> n \<le> 255 \<longrightarrow> createIntegerData (Num n) = Inr [0x10, word_of_int n]) \<and>
   (-128 \<le> m \<and> m \<le> -1 \<longrightarrow> createIntegerData (Num m) = Inr [0x10, word_of_int m]) \<and>
   (128 \<le> k \<and> k \<le> 255 \<longrightarrow> createIntegerData (Num k) = createIntegerData (Num (k - 256))) \<and>
   \<not> inj_on (\<lambda>v. createIntegerData (Num v)) {-128 .. 255} \<and>
   (- (2 ^ 63) \<le> b \<and> b < 2 ^ 63 \<longrightarrow> createIntegerData (Big b) = Inr (0x13 # be_bytes 8 b))"
proof -
  have small: "createIntegerData (Num v) = Inr [0x10, word_of_int v]" if "0 \<le> v" "v \<le> 255" for v
    using that by (simp add: writeUInt_def be_bytes_1 BPLIST_TYPE_INT_def)
  have neg: "createIntegerData (Num v) = Inr [0x10, word_of_int v]" if "-128 \<le> v" "v \<le> -1" for v
    using that by (simp add: writeInt_def be_bytes_1 BPLIST_TYPE_INT_def)
  have same: "createIntegerData (Num v) = createIntegerData (Num (v - 256))"
    if "128 \<le> v" "v \<le> 255" for v
  proof -
    have "createIntegerData (Num (v - 256)) = Inr [0x10, word_of_int (v - 256)]"
      using that by (intro neg) auto
    with small[of v] that show ?thesis by (simp add: byte_of_int_shift)
  qed
  have "\<not> inj_on (\<lambda>v. createIntegerData (Num v)) {-128 .. 255}"
  proof
    assume "inj_on (\<lambda>v. createIntegerData (Num v)) {-128 .. 255}"
    moreover have "createIntegerData (Num 200) = createIntegerData (Num (200 - 256))"
      by (rule same) auto
    ultimately have "(200::int) = 200 - 256"
      by (rule inj_onD) simp_all
    then show False by simp
  qed
  moreover have "createIntegerData (Big b) = Inr (0x13 # be_bytes 8 b)"
    if "- (2 ^ 63) \<le> b \<and> b < 2 ^ 63"
    using that by (simp add: writeInt_def BPLIST_TYPE_INT_def)
  ultimately show ?thesis using small neg same by blast
qed

theorem createIntegerData_one_byte_witness:
  "createIntegerData (Num 200) = Inr [0x10, 0xC8] \<and>
   createIntegerData (Num (-56)) = Inr [0x10, 0xC8] \<and>
   createIntegerData (Num 200) = createIntegerData (Num (200 - 256)) \<and>
   createIntegerData (Big (-56)) = Inr [0x13, 0xFF, 0xFF, 0xFF, 0xFF, 0xFF, 0xFF, 0xFF, 0xC8]"
proof -
  note T = createIntegerData_one_byte [of 200 "-56" 200 "-56"]
  have numbers: "createIntegerData (Num 200) = Inr [0x10, 0xC8] \<and>
      createIntegerData (Num (-56)) = Inr [0x10, 0xC8] \<and>
      createIntegerData (Num 200) = createIntegerData (Num (200 - 256))"
    using T by simp
  have range: "- (2 ^ 63) \<le> (-56 :: int) \<and> (-56 :: int) < 2 ^ 63"
    by simp
  have big: "createIntegerData (Big (-56)) = Inr (0x13 # be_bytes 8 (-56))"
    using T [THEN conjunct2, THEN conjunct2, THEN conjunct2, THEN conjunct2, THEN mp, OF range] .
  have bytes: "be_bytes 8 (-56) = [0xFF, 0xFF, 0xFF, 0xFF, 0xFF, 0xFF, 0xFF, 0xC8]"
    by code_simp
  have "createIntegerData (Big (-56)) = Inr [0x13, 0xFF, 0xFF, 0xFF, 0xFF, 0xFF, 0xFF, 0xFF, 0xC8]"
    using big bytes by (simp only:)
  with numbers show ?thesis by blast
qed

text \<open>
  C9 as the specification states it does not hold of every integer from 0 to 255: for the
  \<^verbatim>\<open>bigint\<close> 200 the creator emits nine bytes, not the tag 0x10 and one byte.
\<close>

theorem createIntegerData_bigint_eight_bytes:
  "createIntegerData (Big 200) = Inr [0x13, 0, 0, 0, 0, 0, 0, 0, 0xC8] \<and>
   createIntegerData (Big 200) \<noteq> Inr [0x10, 0xC8]"
  by code_simp

section \<open>Properties of the RemoteXPC handshake\<close>

lemmas h2_consts = ROOT_CHANNEL_def REPLY_CHANNEL_def XPC_FLAGS_ALWAYS_SET_def
  XPC_FLAGS_INIT_HANDSHAKE_def

lemma sendFrame_ok:
  "write_error (socket h) (attempts (socket h)) = None \<Longrightarrow>
   sendFrame f h =
     (None, h\<lparr>socket := (socket h)\<lparr>written := written (socket h) @ [Serialized f],
                                    attempts := attempts (socket h) + 1\<rparr>\<rparr>)"
  by (simp add: sendFrame_def socket_write_def)

lemma sendMagic_ok:
  "write_error (socket h) (attempts (socket h)) = None \<Longrightarrow>
   sendMagic h =
     (None, h\<lparr>socket := (socket h)\<lparr>written := written (socket h) @ [HTTP2_MAGIC],
                                    attempts := attempts (socket h) + 1\<rparr>\<rparr>)"
  by (simp add: sendMagic_def socket_write_def)

lemma sendRequest_ok:
  "nextMessageId h ROOT_CHANNEL = Some i \<Longrightarrow>
   write_error (socket h) (attempts (socket h)) = None \<Longrightarrow>
   sendRequest d h =
     (None, h\<lparr>socket := (socket h)\<lparr>written := written (socket h) @
        [Serialized (DataFrame ROOT_CHANNEL
           \<lparr>xpc_flags = XPC_FLAGS_ALWAYS_SET, xpc_id = i, xpc_body = d\<rparr> [])],
        attempts := attempts (socket h) + 1\<rparr>\<rparr>)"
  by (simp add: sendRequest_def sendFrame_ok)

text \<open>
  C4. On a socket whose next nine writes succeed, \<^verbatim>\<open>perform\<close> on a new handshake completes
  and has written, in this order: the client preface; SETTINGS on stream 0 with
  MAX_CONCURRENT_STREAMS = 100 and INITIAL_WINDOW_SIZE = 1048576; WINDOW_UPDATE of 983041 on
  stream 0; HEADERS with END_HEADERS on stream 1; DATA on stream 1 with flags 0x1, id 0 and an
  empty dictionary; DATA on stream 1 with flags 0x0201, id 0 and a null body; HEADERS with
  END_HEADERS on stream 3; DATA on stream 3 with flags ALWAYS_SET | INIT_HANDSHAKE, id 0 and a
  null body; SETTINGS ACK on stream 0. The next ids of ROOT and REPLY are then both 1.
\<close>

theorem perform_writes_in_order:
  assumes ok: "\<forall>i<9. write_error k (attempts k + i) = None"
  shows "fst (perform (new_Handshake k)) = None \<and>
    written (socket (snd (perform (new_Handshake k)))) = written k @
      [HTTP2_MAGIC,
       Serialized (SettingsFrame 0 (Some [(MAX_CONCURRENT_STREAMS, 100),
                                          (INITIAL_WINDOW_SIZE, 1048576)]) []),
       Serialized (WindowUpdateFrame 0 983041),
       Serialized (HeadersFrame 1 [] [''END_HEADERS'']),
       Serialized (DataFrame 1 \<lparr>xpc_flags = 0x1, xpc_id = 0, xpc_body = BodyDict []\<rparr> []),
       Serialized (DataFrame 1 \<lparr>xpc_flags = 0x0201, xpc_id = 0, xpc_body = BodyNull\<rparr> []),
       Serialized (HeadersFrame 3 [] [''END_HEADERS'']),
       Serialized (DataFrame 3 \<lparr>xpc_flags = XPC_FLAGS_ALWAYS_SET OR XPC_FLAGS_INIT_HANDSHAKE,
                                 xpc_id = 0, xpc_body = BodyNull\<rparr> []),
       Serialized (SettingsFrame 0 None [''ACK''])] \<and>
    nextMessageId (snd (perform (new_Handshake k))) ROOT_CHANNEL = Some 1 \<and>
    nextMessageId (snd (perform (new_Handshake k))) REPLY_CHANNEL = Some 1"
proof -
  have w: "write_error k (attempts k) = None" "write_error k (Suc (attempts k)) = None"
    "write_error k (Suc (Suc (attempts k))) = None"
    "write_error k (Suc (Suc (Suc (attempts k)))) = None"
    "write_error k (Suc (Suc (Suc (Suc (attempts k))))) = None"
    "write_error k (Suc (Suc (Suc (Suc (Suc (attempts k)))))) = None"
    "write_error k (Suc (Suc (Suc (Suc (Suc (Suc (attempts k))))))) = None"
    "write_error k (Suc (Suc (Suc (Suc (Suc (Suc (Suc (attempts k)))))))) = None"
    "write_error k (Suc (Suc (Suc (Suc (Suc (Suc (Suc (Suc (attempts k))))))))) = None"
    using ok[rule_format, of 0] ok[rule_format, of 1] ok[rule_format, of 2] ok[rule_format, of 3]
      ok[rule_format, of 4] ok[rule_format, of 5] ok[rule_format, of 6] ok[rule_format, of 7]
      ok[rule_format, of 8]
    by (simp_all add: eval_nat_numeral)
  show ?thesis
    by (simp add: perform_def new_Handshake_def sendFrame_ok sendMagic_ok sendRequest_ok
        increment_def w h2_consts)
qed

theorem perform_writes_in_order_witness:
  "fst (perform (new_Handshake \<lparr>written = [], attempts = 0, write_error = (\<lambda>n. None)\<rparr>)) = None \<and>
   length (written (socket (snd (perform
      (new_Handshake \<lparr>written = [], attempts = 0, write_error = (\<lambda>n. None)\<rparr>))))) = 9 \<and>
   nextMessageId (snd (perform (new_Handshake \<lparr>written = [], attempts = 0, write_error = (\<lambda>n. None)\<rparr>)))
     ROOT_CHANNEL = Some 1 \<and>
   nextMessageId (snd (perform (new_Handshake \<lparr>written = [], attempts = 0, write_error = (\<lambda>n. None)\<rparr>)))
     REPLY_CHANNEL = Some 1"
proof -
  have h: "\<forall>i<9. write_error \<lparr>written = [], attempts = 0, write_error = (\<lambda>n. None)\<rparr>
              (attempts \<lparr>written = [], attempts = 0, write_error = (\<lambda>n. None)\<rparr> + i) = None"
    by simp
  show ?thesis
    using perform_writes_in_order [OF h] by simp
qed

text \<open>
  C5, as amended. A call of \<^verbatim>\<open>sendRequest\<close>, when the channel ROOT has the next id \<open>i\<close> and the
  write succeeds, sends a DATA frame on ROOT whose XPC message has the flags ALWAYS_SET, the
  id \<open>i\<close> and the caller's body, and leaves the next ids as they are: the call after it
  carries the id \<open>i\<close> again.
\<close>

theorem sendRequest_keeps_next_id:
  assumes "nextMessageId h ROOT_CHANNEL = Some i"
    and "write_error (socket h) (attempts (socket h)) = None"
    and "write_error (socket h) (attempts (socket h) + 1) = None"
  shows "fst (sendRequest d h) = None \<and>
    written (socket (snd (sendRequest d h))) = written (socket h) @
      [Serialized (DataFrame ROOT_CHANNEL
         \<lparr>xpc_flags = XPC_FLAGS_ALWAYS_SET, xpc_id = i, xpc_body = d\<rparr> [])] \<and>
    nextMessageId (snd (sendRequest d h)) = nextMessageId h \<and>
    fst (sendRequest d' (snd (sendRequest d h))) = None \<and>
    written (socket (snd (sendRequest d' (snd (sendRequest d h))))) = written (socket h) @
      [Serialized (DataFrame ROOT_CHANNEL
         \<lparr>xpc_flags = XPC_FLAGS_ALWAYS_SET, xpc_id = i, xpc_body = d\<rparr> []),
       Serialized (DataFrame ROOT_CHANNEL
         \<lparr>xpc_flags = XPC_FLAGS_ALWAYS_SET, xpc_id = i, xpc_body = d'\<rparr> [])]"
  using assms by (simp add: sendRequest_ok)

theorem sendRequest_keeps_next_id_witness:
  "nextMessageId (new_Handshake \<lparr>written = [], attempts = 0, write_error = (\<lambda>n. None)\<rparr>)
     ROOT_CHANNEL = Some 0 \<and>
   written (socket (snd (sendRequest (BodyDict [])
      (new_Handshake \<lparr>written = [], attempts = 0, write_error = (\<lambda>n. None)\<rparr>)))) =
      [Serialized (DataFrame 1 \<lparr>xpc_flags = 1, xpc_id = 0, xpc_body = BodyDict []\<rparr> [])] \<and>
   nextMessageId (snd (sendRequest (BodyDict [])
      (new_Handshake \<lparr>written = [], attempts = 0, write_error = (\<lambda>n. None)\<rparr>))) ROOT_CHANNEL = Some 0"
proof -
  let ?h = "new_Handshake \<lparr>written = [], attempts = 0, write_error = (\<lambda>n. None)\<rparr>"
  have a: "nextMessageId ?h ROOT_CHANNEL = Some 0"
    by (simp add: new_Handshake_def h2_consts)
  have b: "write_error (socket ?h) (attempts (socket ?h)) = None"
    by (simp add: new_Handshake_def)
  have c: "write_error (socket ?h) (attempts (socket ?h) + 1) = None"
    by (simp add: new_Handshake_def)
  show ?thesis
    using a sendRequest_keeps_next_id [OF a b c, of "BodyDict []" "BodyDict []"]
    by (simp add: new_Handshake_def h2_consts)
qed

text \<open>
  C5 as the specification states it does not hold: after the handshake, on a socket on which
  every write succeeds, a call of \<^verbatim>\<open>sendRequest\<close> does not move the next id of ROOT from 1 to 2,
  and the ids of two calls in a row are not increasing.
\<close>

theorem sendRequest_ids_not_increasing:
  "nextMessageId (snd (sendRequest (BodyDict [])
      (snd (perform (new_Handshake \<lparr>written = [], attempts = 0, write_error = (\<lambda>n. None)\<rparr>)))))
     ROOT_CHANNEL \<noteq> Some 2 \<and>
   \<not> sorted_wrt (<) (data_ids (drop 9 (written (socket (snd (sendRequest (BodyDict [])
      (snd (sendRequest (BodyDict [])
      (snd (perform (new_Handshake \<lparr>written = [], attempts = 0, write_error = (\<lambda>n. None)\<rparr>)))))))))))"
  by (simp add: perform_def new_Handshake_def sendFrame_def sendMagic_def sendRequest_def
      socket_write_def increment_def h2_consts)

section \<open>Properties of the usbmux client\<close>

lemmas mux_consts = USBMUX_RESULT_OK_def USBMUX_RESULT_CONNREFUSED_def

lemma request_state:
  "request k ms s =
     s\<lparr>tag := tag s + 1,
       responseCallbacks := (responseCallbacks s)(tag s \<mapsto> length (waiters s)),
       waiters := waiters s @ [\<lparr>w_tag = tag s, w_kind = k, w_timeout = ms, w_timer = Armed,
                                w_promise = Pending, w_settle_calls = 0, w_cleaned = False\<rparr>],
       sent := sent s @ [(tag s, request_payload k)]\<rparr>"
  by (simp add: request_def receivePlistPromise_def sendPlist_def Let_def)

lemma responseCallback_frame:
  "waiters (snd (responseCallback parse k d s)) = waiters s \<and>
   tag (snd (responseCallback parse k d s)) = tag s \<and>
   responseCallbacks (snd (responseCallback parse k d s)) = responseCallbacks s \<and>
   sent (snd (responseCallback parse k d s)) = sent s"
  by (cases k) (auto split: sum.splits)

text \<open>A response that arrives right after its request runs the callback of that request.\<close>

lemma answered_at_once:
  assumes "header_tag d = tag s"
  shows "handleData parse d (request k ms s) =
     (let s1 = set_timer (length (waiters s)) Cleared (request k ms s);
          r = responseCallback parse k d s1
      in delete_callback (tag s)
           (settle (length (waiters s))
              (case fst r of Inr v \<Rightarrow> Resolved v | Inl e \<Rightarrow> Rejected e) (snd r)))"
  using assms
  by (simp add: handleData_def request_state runCallback_def Let_def split: prod.splits)

lemma byteSwap16_arith:
  assumes "0 \<le> p" "p < 65536"
  shows "byteSwap16 p = (p mod 256) * 256 + p div 256"
proof -
  have a: "p AND 0xff = take_bit 8 p"
    by (simp add: take_bit_eq_mask mask_eq_exp_minus_1)
  have b: "drop_bit 8 p AND 0xff = take_bit 8 (drop_bit 8 p)"
    by (simp add: take_bit_eq_mask mask_eq_exp_minus_1)
  have c: "take_bit 8 (drop_bit 8 p) = p div 256"
    using assms by (simp add: drop_bit_eq_div take_bit_eq_mod)
  have d: "push_bit 8 (take_bit 8 p) + take_bit 8 (drop_bit 8 p)
         = push_bit 8 (take_bit 8 p) OR take_bit 8 (drop_bit 8 p)"
    by (rule disjunctive_add_eq_or) (simp add: bit_eq_iff bit_simps)
  have "byteSwap16 p = push_bit 8 (take_bit 8 p) OR take_bit 8 (drop_bit 8 p)"
    by (simp only: byteSwap16_def a b)
  also have "\<dots> = push_bit 8 (take_bit 8 p) + take_bit 8 (drop_bit 8 p)"
    by (rule d[symmetric])
  also have "\<dots> = push_bit 8 (take_bit 8 p) + p div 256"
    by (simp only: c)
  also have "\<dots> = (p mod 256) * 256 + p div 256"
    by (simp add: push_bit_eq_mult take_bit_eq_mod)
  finally show ?thesis .
qed

text \<open>
  C6. The request of \<^verbatim>\<open>connect(deviceID, port)\<close> is sent under the tag just allocated and
  carries \<^verbatim>\<open>PortNumber = byteSwap16(port)\<close>, which exchanges the two bytes of a 16-bit port
  and sends 62078 as 0x7EF2. When the response under that tag arrives with the message type
  \<^verbatim>\<open>Result\<close>: the number 0 detaches the splitter and resolves the promise with the socket;
  the number 3 rejects it with the connection-refused error; any other number rejects it
  with the error carrying that number; in both rejections the splitter stays as it was.
\<close>

theorem connect_request_and_response:
  "last (sent (request (Connect dev port) ms s)) = (tag s, request_payload (Connect dev port)) \<and>
   field (request_payload (Connect dev port)) ''PortNumber'' = JNum (byteSwap16 port) \<and>
   (0 \<le> port \<and> port < 65536 \<longrightarrow> byteSwap16 port = (port mod 256) * 256 + port div 256) \<and>
   byteSwap16 62078 = 0x7EF2 \<and>
   (header_tag d0 = tag s \<and> field (payload d0) ''MessageType'' = JStr ''Result'' \<and>
    field (payload d0) ''Number'' = JNum 0 \<longrightarrow>
      splitter_detached (handleData parse d0 (request (Connect dev port) ms s)) \<and>
      w_promise (waiters (handleData parse d0 (request (Connect dev port) ms s)) ! length (waiters s))
        = Resolved RSocket) \<and>
   (header_tag d3 = tag s \<and> field (payload d3) ''MessageType'' = JStr ''Result'' \<and>
    field (payload d3) ''Number'' = JNum 3 \<longrightarrow>
      splitter_detached (handleData parse d3 (request (Connect dev port) ms s)) = splitter_detached s \<and>
      w_promise (waiters (handleData parse d3 (request (Connect dev port) ms s)) ! length (waiters s))
        = Rejected (ConnectionRefused port)) \<and>
   (header_tag dn = tag s \<and> field (payload dn) ''MessageType'' = JStr ''Result'' \<and>
    field (payload dn) ''Number'' = JNum n \<and> n \<noteq> 0 \<and> n \<noteq> 3 \<longrightarrow>
      splitter_detached (handleData parse dn (request (Connect dev port) ms s)) = splitter_detached s \<and>
      w_promise (waiters (handleData parse dn (request (Connect dev port) ms s)) ! length (waiters s))
        = Rejected (ConnectionFailed (JNum n)))"
proof -
  have p: "field (request_payload (Connect dev port)) ''PortNumber'' = JNum (byteSwap16 port)"
    by (simp add: request_payload_def field_def)
  have b: "byteSwap16 62078 = 0x7EF2"
    by (simp add: byteSwap16_def)
  have l: "last (sent (request (Connect dev port) ms s)) = (tag s, request_payload (Connect dev port))"
    by (simp add: request_state)
  have r: "splitter_detached (handleData parse d (request (Connect dev port) ms s)) =
             (splitter_detached s \<or> field (payload d) ''Number'' = JNum 0) \<and>
           w_promise (waiters (handleData parse d (request (Connect dev port) ms s)) ! length (waiters s)) =
             (if field (payload d) ''Number'' = JNum 0 then Resolved RSocket
              else if field (payload d) ''Number'' = JNum 3 then Rejected (ConnectionRefused port)
              else Rejected (ConnectionFailed (field (payload d) ''Number'')))"
    if "header_tag d = tag s" "field (payload d) ''MessageType'' = JStr ''Result''" for d
    using that
    by (simp add: answered_at_once Let_def)
       (simp add: request_state set_timer_def settle_def delete_callback_def mux_consts Let_def)
  show ?thesis
    using p b l r[of d0] r[of d3] r[of dn] byteSwap16_arith[of port] by auto
qed

theorem connect_request_and_response_witness:
  "field (request_payload (Connect (JNum 7) 62078)) ''PortNumber'' = JNum 0x7EF2 \<and>
   splitter_detached (handleData (\<lambda>v. Inl ParseFailed)
      \<lparr>header_tag = 0, payload = [(''MessageType'', JStr ''Result''), (''Number'', JNum 0)]\<rparr>
      (request (Connect (JNum 7) 62078) 5000 new_usbmux)) \<and>
   w_promise (waiters (handleData (\<lambda>v. Inl ParseFailed)
      \<lparr>header_tag = 0, payload = [(''MessageType'', JStr ''Result''), (''Number'', JNum 0)]\<rparr>
      (request (Connect (JNum 7) 62078) 5000 new_usbmux)) ! 0) = Resolved RSocket \<and>
   w_promise (waiters (handleData (\<lambda>v. Inl ParseFailed)
      \<lparr>header_tag = 0, payload = [(''MessageType'', JStr ''Result''), (''Number'', JNum 3)]\<rparr>
      (request (Connect (JNum 7) 62078) 5000 new_usbmux)) ! 0) = Rejected (ConnectionRefused 62078) \<and>
   w_promise (waiters (handleData (\<lambda>v. Inl ParseFailed)
      \<lparr>header_tag = 0, payload = [(''MessageType'', JStr ''Result''), (''Number'', JNum 2)]\<rparr>
      (request (Connect (JNum 7) 62078) 5000 new_usbmux)) ! 0) = Rejected (ConnectionFailed (JNum 2))"
  using connect_request_and_response
    [of "JNum 7" 62078 5000 new_usbmux
        "\<lparr>header_tag = 0, payload = [(''MessageType'', JStr ''Result''), (''Number'', JNum 0)]\<rparr>"
        "\<lambda>v. Inl ParseFailed"
        "\<lparr>header_tag = 0, payload = [(''MessageType'', JStr ''Result''), (''Number'', JNum 3)]\<rparr>"
        "\<lparr>header_tag = 0, payload = [(''MessageType'', JStr ''Result''), (''Number'', JNum 2)]\<rparr>"
        2]
  by (simp add: new_usbmux_def field_def)

subsection \<open>Socket discovery\<close>

lemma ascii_lower_colon [simp]: "ascii_lower c = CHR '':'' \<longleftrightarrow> c = CHR '':''"
proof -
  have "(of_char (ascii_lower c) = (58::nat)) \<longleftrightarrow> (of_char c = (58::nat))"
    by (auto simp: ascii_lower_def)
  moreover have "(of_char d = (58::nat)) \<longleftrightarrow> d = CHR '':''" for d
    using of_char_eq_iff [of d "CHR '':''", where ?'a = nat] by simp
  ultimately show ?thesis by simp
qed


















subsection \<open>Tags and the dispatch map\<close>

lemma settle_proj [simp]:
  "tag (settle i out s) = tag s"
  "responseCallbacks (settle i out s) = responseCallbacks s"
  "length (waiters (settle i out s)) = length (waiters s)"
  by (simp_all add: settle_def Let_def)

lemma settle_nth:
  "j < length (waiters s) \<Longrightarrow>
   waiters (settle i out s) ! j =
     (if j = i then (waiters s ! i)\<lparr>w_settle_calls := w_settle_calls (waiters s ! i) + 1,
                                     w_promise := (if w_promise (waiters s ! i) = Pending then out
                                                   else w_promise (waiters s ! i))\<rparr>
      else waiters s ! j)"
  by (simp add: settle_def Let_def nth_list_update)

lemma set_timer_proj [simp]:
  "tag (set_timer i t s) = tag s"
  "responseCallbacks (set_timer i t s) = responseCallbacks s"
  "length (waiters (set_timer i t s)) = length (waiters s)"
  by (simp_all add: set_timer_def)

lemma set_timer_nth:
  "j < length (waiters s) \<Longrightarrow>
   waiters (set_timer i t s) ! j =
     (if j = i then (waiters s ! i)\<lparr>w_timer := t\<rparr> else waiters s ! j)"
  by (simp add: set_timer_def nth_list_update)

lemma delete_callback_proj [simp]:
  "tag (delete_callback t s) = tag s"
  "responseCallbacks (delete_callback t s) = (responseCallbacks s)(t := None)"
  "waiters (delete_callback t s) = waiters s"
  by (simp_all add: delete_callback_def)

lemma mux_invI:
  assumes "tag s = length (waiters s)"
    and "\<And>i. i < length (waiters s) \<Longrightarrow> w_tag (waiters s ! i) = i"
    and "\<And>t i. responseCallbacks s t = Some i \<Longrightarrow>
           i = t \<and> i < length (waiters s) \<and> w_promise (waiters s ! i) = Pending"
    and "\<And>i. i < length (waiters s) \<Longrightarrow> w_settle_calls (waiters s ! i) \<le> 1"
    and "\<And>i. i < length (waiters s) \<Longrightarrow>
           (w_promise (waiters s ! i) = Pending) = (w_settle_calls (waiters s ! i) = 0)"
  shows "mux_inv s"
  using assms unfolding mux_inv_def by blast

lemma mux_inv_tag: "mux_inv s \<Longrightarrow> tag s = length (waiters s)"
  by (simp add: mux_inv_def)

lemma mux_inv_w_tag: "mux_inv s \<Longrightarrow> i < length (waiters s) \<Longrightarrow> w_tag (waiters s ! i) = i"
  by (simp add: mux_inv_def)

lemma mux_inv_entry:
  "mux_inv s \<Longrightarrow> responseCallbacks s t = Some i \<Longrightarrow>
   i = t \<and> i < length (waiters s) \<and> w_promise (waiters s ! i) = Pending"
  unfolding mux_inv_def by blast

lemma mux_inv_calls:
  "mux_inv s \<Longrightarrow> i < length (waiters s) \<Longrightarrow> w_settle_calls (waiters s ! i) \<le> 1"
  by (simp add: mux_inv_def)

lemma mux_inv_pending:
  "mux_inv s \<Longrightarrow> i < length (waiters s) \<Longrightarrow>
   (w_promise (waiters s ! i) = Pending) = (w_settle_calls (waiters s ! i) = 0)"
  by (simp add: mux_inv_def)

lemma mux_inv_same:
  "tag s' = tag s \<Longrightarrow> waiters s' = waiters s \<Longrightarrow> responseCallbacks s' = responseCallbacks s \<Longrightarrow>
   mux_inv s \<Longrightarrow> mux_inv s'"
  by (simp add: mux_inv_def)

lemma mux_inv_new: "mux_inv new_usbmux"
  by (simp add: mux_inv_def new_usbmux_def)

lemma mux_inv_request:
  assumes "mux_inv s"
  shows "mux_inv (request k ms s)"
proof (rule mux_invI)
  show "tag (request k ms s) = length (waiters (request k ms s))"
    using mux_inv_tag [OF assms] by (simp add: request_state)
next
  fix i assume "i < length (waiters (request k ms s))"
  then show "w_tag (waiters (request k ms s) ! i) = i"
    using mux_inv_tag [OF assms] mux_inv_w_tag [OF assms, of i]
    by (auto simp: request_state nth_append)
next
  fix t i assume "responseCallbacks (request k ms s) t = Some i"
  then show "i = t \<and> i < length (waiters (request k ms s)) \<and>
             w_promise (waiters (request k ms s) ! i) = Pending"
    using mux_inv_tag [OF assms] mux_inv_entry [OF assms, of t i]
    by (auto simp: request_state nth_append split: if_splits)
next
  fix i assume "i < length (waiters (request k ms s))"
  then show "w_settle_calls (waiters (request k ms s) ! i) \<le> 1"
    using mux_inv_calls [OF assms, of i]
    by (auto simp: request_state nth_append)
next
  fix i assume "i < length (waiters (request k ms s))"
  then show "(w_promise (waiters (request k ms s) ! i) = Pending) =
             (w_settle_calls (waiters (request k ms s) ! i) = 0)"
    using mux_inv_pending [OF assms, of i]
    by (auto simp: request_state nth_append)
qed

lemma mux_inv_set_timer: "mux_inv s \<Longrightarrow> mux_inv (set_timer i t s)"
  unfolding mux_inv_def by (simp add: set_timer_nth)

lemma mux_inv_delete: "mux_inv s \<Longrightarrow> mux_inv (delete_callback t s)"
  unfolding mux_inv_def by simp

lemma mux_inv_responseCallback: "mux_inv s \<Longrightarrow> mux_inv (snd (responseCallback parse k d s))"
  by (rule mux_inv_same [of _ s]) (simp_all add: responseCallback_frame)

lemma mux_inv_settle:
  assumes "mux_inv s" and "responseCallbacks s t = Some i" and "out \<noteq> Pending"
  shows "mux_inv (delete_callback t (settle i out s))"
proof -
  note e = mux_inv_entry [OF assms(1,2)]
  from e have lt: "i < length (waiters s)" and pend: "w_promise (waiters s ! i) = Pending"
    by blast+
  have c0: "w_settle_calls (waiters s ! i) = 0"
    using mux_inv_pending [OF assms(1) lt] pend by simp
  show ?thesis
  proof (rule mux_invI)
    show "tag (delete_callback t (settle i out s)) = length (waiters (delete_callback t (settle i out s)))"
      using mux_inv_tag [OF assms(1)] by simp
  next
    fix j assume "j < length (waiters (delete_callback t (settle i out s)))"
    then show "w_tag (waiters (delete_callback t (settle i out s)) ! j) = j"
      using mux_inv_w_tag [OF assms(1), of j] by (auto simp: settle_nth)
  next
    fix u j assume "responseCallbacks (delete_callback t (settle i out s)) u = Some j"
    then have "u \<noteq> t" and "responseCallbacks s u = Some j"
      by (auto split: if_splits)
    with mux_inv_entry [OF assms(1), of u j] e
    show "j = u \<and> j < length (waiters (delete_callback t (settle i out s))) \<and>
          w_promise (waiters (delete_callback t (settle i out s)) ! j) = Pending"
      by (auto simp: settle_nth)
  next
    fix j assume "j < length (waiters (delete_callback t (settle i out s)))"
    then show "w_settle_calls (waiters (delete_callback t (settle i out s)) ! j) \<le> 1"
      using mux_inv_calls [OF assms(1), of j] c0 by (auto simp: settle_nth)
  next
    fix j assume "j < length (waiters (delete_callback t (settle i out s)))"
    then show "(w_promise (waiters (delete_callback t (settle i out s)) ! j) = Pending) =
               (w_settle_calls (waiters (delete_callback t (settle i out s)) ! j) = 0)"
      using mux_inv_pending [OF assms(1), of j] e assms(3) by (auto simp: settle_nth)
  qed
qed

lemma mux_inv_callback:
  assumes "mux_inv s1" and "responseCallbacks s1 t = Some i"
  shows "mux_inv (case responseCallback parse k d s1 of
                    (r, s2) \<Rightarrow>
                      delete_callback t
                        (settle i (case r of Inr v \<Rightarrow> Resolved v | Inl e \<Rightarrow> Rejected e) s2))"
proof -
  obtain r s2 where rc: "responseCallback parse k d s1 = (r, s2)"
    by (cases "responseCallback parse k d s1")
  have inv2: "mux_inv s2"
    using mux_inv_responseCallback [OF assms(1), of parse k d] rc by simp
  have cb2: "responseCallbacks s2 t = Some i"
    using responseCallback_frame [of parse k d s1] rc assms(2) by simp
  have "(case r of Inr v \<Rightarrow> Resolved v | Inl e \<Rightarrow> Rejected e) \<noteq> Pending"
    by (cases r) simp_all
  then show ?thesis
    using mux_inv_settle [OF inv2 cb2] rc by simp
qed

lemma mux_inv_handleData:
  assumes inv: "mux_inv s"
  shows "mux_inv (handleData parse d s)"
proof (cases "responseCallbacks s (header_tag d)")
  case None
  with inv show ?thesis by (simp add: handleData_def)
next
  case (Some i)
  note e = mux_inv_entry [OF inv Some]
  then have wt: "w_tag (waiters s ! i) = header_tag d"
    using mux_inv_w_tag [OF inv, of i] by simp
  have a: "mux_inv (case responseCallback parse (w_kind (waiters s ! i)) d s of
                    (r, s2) \<Rightarrow>
                      delete_callback (header_tag d)
                        (settle i (case r of Inr v \<Rightarrow> Resolved v | Inl e \<Rightarrow> Rejected e) s2))"
    using inv Some by (rule mux_inv_callback)
  have b: "mux_inv (case responseCallback parse (w_kind (waiters s ! i)) d (set_timer i Cleared s) of
                    (r, s2) \<Rightarrow>
                      delete_callback (header_tag d)
                        (settle i (case r of Inr v \<Rightarrow> Resolved v | Inl e \<Rightarrow> Rejected e) s2))"
    by (rule mux_inv_callback) (simp_all add: mux_inv_set_timer inv Some)
  show ?thesis
    using Some e wt a b by (simp add: handleData_def runCallback_def Let_def)
qed

lemma mux_inv_timerFires: "mux_inv s \<Longrightarrow> mux_inv (timerFires i s)"
proof -
  assume inv: "mux_inv s"
  show ?thesis
  proof (cases "i < length (waiters s) \<and> w_timer (waiters s ! i) = Armed")
    case False
    with inv show ?thesis by (auto simp: timerFires_def)
  next
    case True
    let ?w = "waiters s ! i"
    let ?s1 = "set_timer i Fired s"
    have inv1: "mux_inv ?s1" using inv by (rule mux_inv_set_timer)
    have wt: "w_tag ?w = i" using mux_inv_w_tag [OF inv, of i] True by simp
    show ?thesis
    proof (cases "responseCallbacks s i")
      case None
      with True wt inv1 show ?thesis by (simp add: timerFires_def Let_def)
    next
      case (Some j)
      with mux_inv_entry [OF inv Some] have cb: "responseCallbacks ?s1 i = Some i" by simp
      have "timerFires i s =
              settle i (Rejected (ReceiveTimeout (w_timeout ?w))) (delete_callback i ?s1)"
        using True wt Some by (simp add: timerFires_def Let_def)
      also have "\<dots> = delete_callback i (settle i (Rejected (ReceiveTimeout (w_timeout ?w))) ?s1)"
        by (simp add: settle_def delete_callback_def Let_def)
      finally show ?thesis
        using mux_inv_settle [OF inv1 cb, of "Rejected (ReceiveTimeout (w_timeout ?w))"] by simp
    qed
  qed
qed

lemma mux_inv_settledCleanup: "mux_inv s \<Longrightarrow> mux_inv (settledCleanup i s)"
proof -
  assume inv: "mux_inv s"
  let ?s1 = "s\<lparr>waiters := (waiters s)[i := (waiters s ! i)\<lparr>w_cleaned := True\<rparr>]\<rparr>"
  have "mux_inv ?s1"
  proof (rule mux_invI)
    show "tag ?s1 = length (waiters ?s1)"
      using mux_inv_tag [OF inv] by simp
  next
    fix j assume "j < length (waiters ?s1)"
    then show "w_tag (waiters ?s1 ! j) = j"
      using mux_inv_w_tag [OF inv, of j] by (cases "j = i") auto
  next
    fix t j assume "responseCallbacks ?s1 t = Some j"
    then show "j = t \<and> j < length (waiters ?s1) \<and> w_promise (waiters ?s1 ! j) = Pending"
      using mux_inv_entry [OF inv, of t j] by (cases "j = i") auto
  next
    fix j assume "j < length (waiters ?s1)"
    then show "w_settle_calls (waiters ?s1 ! j) \<le> 1"
      using mux_inv_calls [OF inv, of j] by (cases "j = i") auto
  next
    fix j assume "j < length (waiters ?s1)"
    then show "(w_promise (waiters ?s1 ! j) = Pending) = (w_settle_calls (waiters ?s1 ! j) = 0)"
      using mux_inv_pending [OF inv, of j] by (cases "j = i") auto
  qed
  then have "mux_inv (delete_callback (w_tag (waiters s ! i)) ?s1)"
    by (rule mux_inv_delete)
  with \<open>mux_inv ?s1\<close> inv show ?thesis
    by (simp add: settledCleanup_def Let_def)
qed

lemma mux_inv_step: "mux_inv s \<Longrightarrow> mux_inv (step parse s ev)"
  by (cases ev)
     (simp_all add: mux_inv_request mux_inv_handleData mux_inv_timerFires mux_inv_settledCleanup)

lemma mux_inv_foldl: "mux_inv s \<Longrightarrow> mux_inv (foldl (step parse) s evs)"
  by (induction evs arbitrary: s) (simp_all add: mux_inv_step)

lemma mux_inv_run: "mux_inv (run parse evs)"
  by (simp add: run_def mux_inv_foldl mux_inv_new)


lemma sent_settle [simp]: "sent (settle i out s) = sent s"
  by (simp add: settle_def Let_def)

lemma sent_set_timer [simp]: "sent (set_timer i t s) = sent s"
  by (simp add: set_timer_def)

lemma sent_delete_callback [simp]: "sent (delete_callback t s) = sent s"
  by (simp add: delete_callback_def)

lemma step_keeps_sent:
  "(\<forall>k ms. ev \<noteq> Call k ms) \<Longrightarrow> sent (step parse s ev) = sent s \<and> tag (step parse s ev) = tag s"
proof (cases ev)
  case (Call k ms)
  assume "\<forall>k ms. ev \<noteq> Call k ms"
  with Call show ?thesis by simp
next
  case (Data d)
  show ?thesis
  proof (cases "responseCallbacks s (header_tag d)")
    case None
    with Data show ?thesis by (simp add: handleData_def)
  next
    case (Some i)
    obtain r s2 where rc:
      "responseCallback parse (w_kind (waiters s ! i)) d
         (if w_timer (waiters s ! i) = Armed then set_timer i Cleared s else s) = (r, s2)"
      by (cases "responseCallback parse (w_kind (waiters s ! i)) d
         (if w_timer (waiters s ! i) = Armed then set_timer i Cleared s else s)")
    have "sent s2 = sent s \<and> tag s2 = tag s"
      using responseCallback_frame [of parse "w_kind (waiters s ! i)" d
         "if w_timer (waiters s ! i) = Armed then set_timer i Cleared s else s"] rc
      by (simp split: if_splits)
    with Data Some rc show ?thesis
      by (simp add: handleData_def runCallback_def Let_def)
  qed
next
  case (TimerFires i)
  then show ?thesis by (simp add: timerFires_def Let_def)
next
  case (SettledCleanup i)
  then show ?thesis by (simp add: settledCleanup_def Let_def)
qed

lemma sent_tags_step:
  assumes "map fst (sent s) = [0 ..< tag s]"
  shows "map fst (sent (step parse s ev)) = [0 ..< tag (step parse s ev)]"
proof (cases "\<exists>k ms. ev = Call k ms")
  case True
  then obtain k ms where "ev = Call k ms" by blast
  with assms show ?thesis by (simp add: request_state)
next
  case False
  then have "sent (step parse s ev) = sent s \<and> tag (step parse s ev) = tag s"
    by (intro step_keeps_sent) blast
  with assms show ?thesis by simp
qed

lemma sent_tags_foldl:
  "map fst (sent s) = [0 ..< tag s] \<Longrightarrow>
   map fst (sent (foldl (step parse) s evs)) = [0 ..< tag (foldl (step parse) s evs)]"
  by (induction evs arbitrary: s) (simp_all add: sent_tags_step)

lemma sent_tags_run: "map fst (sent (run parse evs)) = [0 ..< tag (run parse evs)]"
  unfolding run_def by (rule sent_tags_foldl) (simp add: new_usbmux_def)

lemma settled_no_entry:
  assumes "mux_inv s" and "i < length (waiters s)" and "w_promise (waiters s ! i) \<noteq> Pending"
  shows "responseCallbacks s (w_tag (waiters s ! i)) = None"
proof (cases "responseCallbacks s (w_tag (waiters s ! i))")
  case None
  then show ?thesis .
next
  case (Some j)
  from mux_inv_entry [OF assms(1) Some] mux_inv_w_tag [OF assms(1,2)] assms(3)
  show ?thesis by auto
qed

lemma callback_removes:
  "responseCallbacks
     (case responseCallback parse k d s1 of (r, s2) \<Rightarrow> delete_callback t (settle i (f r) s2)) t = None"
  by (cases "responseCallback parse k d s1") simp

lemma handleData_removes:
  assumes inv: "mux_inv s"
  shows "responseCallbacks (handleData parse d s) (header_tag d) = None"
proof (cases "responseCallbacks s (header_tag d)")
  case None
  then show ?thesis by (simp add: handleData_def)
next
  case (Some i)
  note e = mux_inv_entry [OF inv Some]
  then have wt: "w_tag (waiters s ! i) = header_tag d"
    using mux_inv_w_tag [OF inv, of i] by simp
  from Some e wt show ?thesis
    by (simp add: handleData_def runCallback_def Let_def callback_removes)
qed

lemma timerFires_removes:
  "i < length (waiters s) \<Longrightarrow> w_timer (waiters s ! i) = Armed \<Longrightarrow>
   responseCallbacks (timerFires i s) (w_tag (waiters s ! i)) = None"
  by (simp add: timerFires_def Let_def)

lemma settledCleanup_removes:
  assumes "mux_inv s" and "i < length (waiters s)" and "w_promise (waiters s ! i) \<noteq> Pending"
  shows "responseCallbacks (settledCleanup i s) (w_tag (waiters s ! i)) = None"
  using settled_no_entry [OF assms] by (simp add: settledCleanup_def Let_def)

text \<open>
  C10. Each request operation takes the value of the counter as its tag, sends its message
  under it, and adds one to the counter; the tags of the messages sent are pairwise
  distinct, and so are those of the waiters. Whatever requests, responses, timer expiries
  and settlement handlers have run: \<^verbatim>\<open>resolve\<close> and \<^verbatim>\<open>reject\<close> were called at most once for each
  waiter; no entry of the dispatch map remains under the tag of a settled waiter; the entry
  under a tag is gone after a response with that tag has been handled, after the timer of
  its waiter has fired, and after the settlement handler of its waiter has run.
\<close>

theorem usbmux_tags_and_waiters:
  "fst (receivePlistPromise ms k s) = tag s \<and>
   tag (snd (receivePlistPromise ms k s)) = tag s + 1 \<and>
   last (sent (request k ms s)) = (tag s, request_payload k) \<and>
   distinct (map fst (sent (run parse evs))) \<and>
   (\<forall>i < length (waiters (run parse evs)). \<forall>j < length (waiters (run parse evs)).
      i \<noteq> j \<longrightarrow> w_tag (waiters (run parse evs) ! i) \<noteq> w_tag (waiters (run parse evs) ! j)) \<and>
   (\<forall>i < length (waiters (run parse evs)). w_settle_calls (waiters (run parse evs) ! i) \<le> 1) \<and>
   (\<forall>i < length (waiters (run parse evs)).
      w_promise (waiters (run parse evs) ! i) \<noteq> Pending \<longrightarrow>
      responseCallbacks (run parse evs) (w_tag (waiters (run parse evs) ! i)) = None) \<and>
   responseCallbacks (handleData parse d (run parse evs)) (header_tag d) = None \<and>
   (\<forall>i < length (waiters (run parse evs)).
      w_timer (waiters (run parse evs) ! i) = Armed \<longrightarrow>
      responseCallbacks (timerFires i (run parse evs)) (w_tag (waiters (run parse evs) ! i)) = None) \<and>
   (\<forall>i < length (waiters (run parse evs)).
      w_promise (waiters (run parse evs) ! i) \<noteq> Pending \<longrightarrow>
      responseCallbacks (settledCleanup i (run parse evs)) (w_tag (waiters (run parse evs) ! i)) = None)"
proof -
  note inv = mux_inv_run [of parse evs]
  have a: "fst (receivePlistPromise ms k s) = tag s \<and>
           tag (snd (receivePlistPromise ms k s)) = tag s + 1"
    by (simp add: receivePlistPromise_def Let_def)
  have b: "last (sent (request k ms s)) = (tag s, request_payload k)"
    by (simp add: request_state)
  have c: "distinct (map fst (sent (run parse evs)))"
    by (simp add: sent_tags_run)
  have d: "\<forall>i < length (waiters (run parse evs)). \<forall>j < length (waiters (run parse evs)).
      i \<noteq> j \<longrightarrow> w_tag (waiters (run parse evs) ! i) \<noteq> w_tag (waiters (run parse evs) ! j)"
    using mux_inv_w_tag [OF inv] by simp
  have e: "\<forall>i < length (waiters (run parse evs)). w_settle_calls (waiters (run parse evs) ! i) \<le> 1"
    using mux_inv_calls [OF inv] by simp
  have f: "\<forall>i < length (waiters (run parse evs)).
      w_promise (waiters (run parse evs) ! i) \<noteq> Pending \<longrightarrow>
      responseCallbacks (run parse evs) (w_tag (waiters (run parse evs) ! i)) = None"
    using settled_no_entry [OF inv] by blast
  have g: "responseCallbacks (handleData parse d (run parse evs)) (header_tag d) = None"
    using inv by (rule handleData_removes)
  have h: "\<forall>i < length (waiters (run parse evs)).
      w_timer (waiters (run parse evs) ! i) = Armed \<longrightarrow>
      responseCallbacks (timerFires i (run parse evs)) (w_tag (waiters (run parse evs) ! i)) = None"
    using timerFires_removes by blast
  have i: "\<forall>i < length (waiters (run parse evs)).
      w_promise (waiters (run parse evs) ! i) \<noteq> Pending \<longrightarrow>
      responseCallbacks (settledCleanup i (run parse evs)) (w_tag (waiters (run parse evs) ! i)) = None"
    using settledCleanup_removes [OF inv] by blast
  from a b c d e f g h i show ?thesis by blast
qed

theorem usbmux_tags_and_waiters_witness:
  "length (waiters (run (\<lambda>v. Inl ParseFailed)
     [Call ReadBUID 5000, Call ListDevices 5000,
      Data \<lparr>header_tag = 1, payload = [(''DeviceList'', JObj 1)]\<rparr>,
      Data \<lparr>header_tag = 0, payload = [(''BUID'', JStr ''buid'')]\<rparr>])) = 2 \<and>
   map w_tag (waiters (run (\<lambda>v. Inl ParseFailed)
     [Call ReadBUID 5000, Call ListDevices 5000,
      Data \<lparr>header_tag = 1, payload = [(''DeviceList'', JObj 1)]\<rparr>,
      Data \<lparr>header_tag = 0, payload = [(''BUID'', JStr ''buid'')]\<rparr>])) = [0, 1] \<and>
   map w_promise (waiters (run (\<lambda>v. Inl ParseFailed)
     [Call ReadBUID 5000, Call ListDevices 5000,
      Data \<lparr>header_tag = 1, payload = [(''DeviceList'', JObj 1)]\<rparr>,
      Data \<lparr>header_tag = 0, payload = [(''BUID'', JStr ''buid'')]\<rparr>])) =
     [Resolved (RValue (JStr ''buid'')), Resolved (RValue (JObj 1))] \<and>
   map w_settle_calls (waiters (run (\<lambda>v. Inl ParseFailed)
     [Call ReadBUID 5000, Call ListDevices 5000,
      Data \<lparr>header_tag = 1, payload = [(''DeviceList'', JObj 1)]\<rparr>,
      Data \<lparr>header_tag = 0, payload = [(''BUID'', JStr ''buid'')]\<rparr>])) = [1, 1] \<and>
   responseCallbacks (run (\<lambda>v. Inl ParseFailed)
     [Call ReadBUID 5000, Call ListDevices 5000,
      Data \<lparr>header_tag = 1, payload = [(''DeviceList'', JObj 1)]\<rparr>,
      Data \<lparr>header_tag = 0, payload = [(''BUID'', JStr ''buid'')]\<rparr>]) 0 = None \<and>
   responseCallbacks (run (\<lambda>v. Inl ParseFailed)
     [Call ReadBUID 5000, Call ListDevices 5000,
      Data \<lparr>header_tag = 1, payload = [(''DeviceList'', JObj 1)]\<rparr>,
      Data \<lparr>header_tag = 0, payload = [(''BUID'', JStr ''buid'')]\<rparr>]) 1 = None"
  using usbmux_tags_and_waiters [of 5000 ReadBUID new_usbmux "\<lambda>v. Inl ParseFailed"
     "[Call ReadBUID 5000, Call ListDevices 5000,
      Data \<lparr>header_tag = 1, payload = [(''DeviceList'', JObj 1)]\<rparr>,
      Data \<lparr>header_tag = 0, payload = [(''BUID'', JStr ''buid'')]\<rparr>]"
     "\<lparr>header_tag = 0, payload = []\<rparr>"]
  by (simp add: run_def request_state handleData_def runCallback_def settle_def set_timer_def
      delete_callback_def field_def new_usbmux_def Let_def)

section \<open>Properties of the lockdown service\<close>

text \<open>
  C8, as amended. When the pair record read from the muxer lacks the host certificate or
  the host private key, \<^verbatim>\<open>tryUpgradeToTLS\<close> ends with the error \<^verbatim>\<open>Pair record missing
  certificate or key\<close>; when both are there and the host id or the system BUID is missing, it
  returns. In either case the service is unchanged: \<^verbatim>\<open>_isTLS\<close> keeps its value, and if that is
  false the next \<^verbatim>\<open>sendAndReceive\<close> goes through the plain plist service.
\<close>

theorem tryUpgradeToTLS_incomplete_pair_record:
  assumes "usbmuxFailure env = None" and "pairRecordRead env = Inr (Some r)"
  shows
   "(\<not> present (HostCertificate r) \<or> \<not> present (HostPrivateKey r) \<longrightarrow>
       tryUpgradeToTLS env s = (Inl MissingCertOrKey, s)) \<and>
    (present (HostCertificate r) \<and> present (HostPrivateKey r) \<and>
     (\<not> present (HostID r) \<or> \<not> present (SystemBUID r)) \<longrightarrow>
       tryUpgradeToTLS env s = (Inr (), s)) \<and>
    (\<not> present (HostCertificate r) \<or> \<not> present (HostPrivateKey r) \<or>
     \<not> present (HostID r) \<or> \<not> present (SystemBUID r) \<longrightarrow>
       isTLS (snd (tryUpgradeToTLS env s)) = isTLS s \<and>
       (\<not> isTLS s \<longrightarrow>
          traffic (snd (sendAndReceive msg answer (snd (tryUpgradeToTLS env s)))) =
            traffic s @ [(PlainService, msg)]))"
  using assms
  by (auto simp: tryUpgradeToTLS_def getPairRecord_def sendAndReceive_def activeService_def
      split: option.splits)

theorem tryUpgradeToTLS_incomplete_pair_record_witness:
  "tryUpgradeToTLS
     \<lparr>usbmuxFailure = None,
      pairRecordRead = Inr (Some \<lparr>HostID = None, SystemBUID = Some ''buid'',
                                  HostCertificate = Some ''cert'', HostPrivateKey = Some ''key''\<rparr>),
      sessionReply = Inr [], tlsOutcome = Inr 1\<rparr>
     (new_LockdownService ''udid'') = (Inr (), new_LockdownService ''udid'') \<and>
   traffic (snd (sendAndReceive [] (Inr [])
     (snd (tryUpgradeToTLS
       \<lparr>usbmuxFailure = None,
        pairRecordRead = Inr (Some \<lparr>HostID = None, SystemBUID = Some ''buid'',
                                    HostCertificate = Some ''cert'', HostPrivateKey = Some ''key''\<rparr>),
        sessionReply = Inr [], tlsOutcome = Inr 1\<rparr>
       (new_LockdownService ''udid''))))) = [(PlainService, [])] \<and>
   tryUpgradeToTLS
     \<lparr>usbmuxFailure = None,
      pairRecordRead = Inr (Some \<lparr>HostID = Some ''host'', SystemBUID = Some ''buid'',
                                  HostCertificate = Some ''cert'', HostPrivateKey = None\<rparr>),
      sessionReply = Inr [], tlsOutcome = Inr 1\<rparr>
     (new_LockdownService ''udid'') = (Inl MissingCertOrKey, new_LockdownService ''udid'') \<and>
   isTLS (new_LockdownService ''udid'') = False"
  using
    tryUpgradeToTLS_incomplete_pair_record
     [of "\<lparr>usbmuxFailure = None,
            pairRecordRead = Inr (Some \<lparr>HostID = None, SystemBUID = Some ''buid'',
                                        HostCertificate = Some ''cert'', HostPrivateKey = Some ''key''\<rparr>),
            sessionReply = Inr [], tlsOutcome = Inr 1\<rparr>"
         "\<lparr>HostID = None, SystemBUID = Some ''buid'',
           HostCertificate = Some ''cert'', HostPrivateKey = Some ''key''\<rparr>"
         "new_LockdownService ''udid''" "[]" "Inr []"]
    tryUpgradeToTLS_incomplete_pair_record
     [of "\<lparr>usbmuxFailure = None,
            pairRecordRead = Inr (Some \<lparr>HostID = Some ''host'', SystemBUID = Some ''buid'',
                                        HostCertificate = Some ''cert'', HostPrivateKey = None\<rparr>),
            sessionReply = Inr [], tlsOutcome = Inr 1\<rparr>"
         "\<lparr>HostID = Some ''host'', SystemBUID = Some ''buid'',
           HostCertificate = Some ''cert'', HostPrivateKey = None\<rparr>"
         "new_LockdownService ''udid''" "[]" "Inr []"]
  by (simp add: new_LockdownService_def sendAndReceive_def activeService_def)

text \<open>
  C8 as the specification states it does not hold: with a pair record that lacks the host
  certificate, \<^verbatim>\<open>tryUpgradeToTLS\<close> does not return; it ends with an error.
\<close>

theorem tryUpgradeToTLS_missing_certificate_throws:
  "fst (tryUpgradeToTLS
     \<lparr>usbmuxFailure = None,
      pairRecordRead = Inr (Some \<lparr>HostID = Some ''host'', SystemBUID = Some ''buid'',
                                  HostCertificate = None, HostPrivateKey = Some ''key''\<rparr>),
      sessionReply = Inr [], tlsOutcome = Inr 1\<rparr>
     (new_LockdownService ''udid'')) \<noteq> Inr ()"
  by (simp add: tryUpgradeToTLS_def getPairRecord_def)

end
